theory Spec2Isabelle
  imports Main
begin

section \<open>Data model (backend/index.js, Step 3)\<close>

text \<open>
  The status field of an appointment is a string of the schema; the handlers only ever
  store the three values named in the schema's comment.
\<close>

datatype appt_status = Scheduled | Rescheduled | Missed

text \<open>
  A \<open>Date\<close> is its number of milliseconds since the epoch. Appointments are never
  deleted, so the collection is a list and the \<open>_id\<close> of an appointment is its position.
\<close>

record appointment =
  patientName :: string
  patientEmail :: string
  doctorId :: string
  appointmentTime :: int
  status :: appt_status

record day_schedule =
  date :: int
  availableSlots :: "string list"

text \<open>
  \<open>doctorId\<close> carries a unique index, so the Doctor collection is a map from
  \<open>doctorId\<close> to the rest of the document.
\<close>

record doctor =
  name :: string
  email :: string
  schedule :: "day_schedule list"

record store =
  appointments :: "appointment list"
  doctors :: "string \<rightharpoonup> doctor"

text \<open>
  Every awaited call on the database, and the mail transport, can fail; the handlers catch
  the failure and answer 500. A run of a handler is given the set of calls that fail.
\<close>

datatype store_op =
  FindDoctor | FindAppointment | FindOverlap | SaveAppointment | SaveDoctor | SendMail

datatype response =
    DoctorNotFound            \<comment> \<open>404 Doctor not found\<close>
  | AppointmentNotFound       \<comment> \<open>404 Appointment not found\<close>
  | SlotNotAvailable          \<comment> \<open>400 Slot not available\<close>
  | SlotAlreadyBooked         \<comment> \<open>400 Slot already booked\<close>
  | SlotsUpdated              \<comment> \<open>200 Slots updated successfully\<close>
  | AppointmentBooked         \<comment> \<open>201 Appointment booked successfully\<close>
  | RescheduledNotified       \<comment> \<open>200 Appointment rescheduled and patient notified\<close>
  | ErrorUpdatingSlots        \<comment> \<open>500 Error updating slots\<close>
  | ErrorBooking              \<comment> \<open>500 Error booking appointment\<close>
  | ErrorCheckingSlot         \<comment> \<open>500 Error checking slot availability\<close>
  | ErrorRescheduling         \<comment> \<open>500 Error rescheduling appointment\<close>
  | ErrorNotifying            \<comment> \<open>500 Error notifying patient\<close>

section \<open>Dates\<close>

text \<open>
  \<open>toISOString().split('T')[0]\<close> is the UTC calendar day \<open>YYYY-MM-DD\<close>; two such
  strings are equal exactly when the day numbers are, so the string is represented by the
  day number. \<open>toISOString().split('T')[1].slice(0, 5)\<close> is the UTC time of day
  \<open>HH:MM\<close>, kept as a string because it is compared with the slot strings.
\<close>

text \<open>
  The time a request carries is read with \<open>new Date\<close>. It is a valid date when it lies
  within 8640000000000000 ms of the epoch; every other value is an Invalid Date (a body
  that \<open>new Date\<close> cannot read is one of these), whose \<open>toISOString()\<close> throws. The
  dates stored in a schedule are valid dates: the database layer stores no other.
\<close>

definition validDate :: "int \<Rightarrow> bool" where
  "validDate t \<longleftrightarrow> - 8640000000000000 \<le> t \<and> t \<le> 8640000000000000"

definition isoDate :: "int \<Rightarrow> int" where
  "isoDate t = t div 86400000"

definition digit :: "nat \<Rightarrow> char" where
  "digit n = ''0123456789'' ! (n mod 10)"

definition pad2 :: "nat \<Rightarrow> string" where
  "pad2 n = [digit (n div 10), digit n]"

definition hhmm :: "nat \<Rightarrow> nat \<Rightarrow> string" where
  "hhmm h m = pad2 h @ '':'' @ pad2 m"

definition isoTime :: "int \<Rightarrow> string" where
  "isoTime t = hhmm (nat (t mod 86400000 div 3600000)) (nat (t mod 86400000 div 60000 mod 60))"

text \<open>
  \<open>toDateString()\<close> is the calendar day in the server's local time; \<open>tz\<close> is the
  offset of local time from UTC in milliseconds, taken constant.
\<close>

definition toDateString :: "int \<Rightarrow> int \<Rightarrow> int" where
  "toDateString tz t = (t + tz) div 86400000"

text \<open>
  The \<open>newSlot\<close> of a reschedule request: \<open>newSlot.date\<close> is a calendar day
  \<open>YYYY-MM-DD\<close> (its day number), \<open>newSlot.time\<close> a time of day of the form
  \<open>HH:MM\<close> (hour and minute; the string is \<open>slotTime\<close>).
\<close>

record newSlot =
  slotDate :: int
  slotHour :: nat
  slotMinute :: nat

definition slotTime :: "newSlot \<Rightarrow> string" where
  "slotTime ns = hhmm (slotHour ns) (slotMinute ns)"

text \<open>
  \<open>new Date(newSlot.date)\<close>: a date-only string is midnight UTC of that day.
\<close>

definition slotDay :: "newSlot \<Rightarrow> int" where
  "slotDay ns = slotDate ns * 86400000"

text \<open>
  \<open>new Date(`${newSlot.date}T${newSlot.time}`)\<close>: a date-time string without zone
  is local time. Hours and minutes out of range give an invalid date (\<open>None\<close>);
  24:00 is the end of the day.
\<close>

definition slotInstant :: "int \<Rightarrow> newSlot \<Rightarrow> int option" where
  "slotInstant tz ns =
     (if (slotHour ns < 24 \<and> slotMinute ns < 60) \<or> (slotHour ns = 24 \<and> slotMinute ns = 0)
      then Some (slotDate ns * 86400000 + int (slotHour ns) * 3600000
                   + int (slotMinute ns) * 60000 - tz)
      else None)"

section \<open>Array helpers\<close>

text \<open>
  \<open>Array.prototype.findIndex\<close>, with \<open>None\<close> for -1. \<open>Array.prototype.find\<close>
  returns a reference to the element at that index: an assignment to a field of the found
  element is an update of the array at the index.
\<close>

fun findIndex :: "('a \<Rightarrow> bool) \<Rightarrow> 'a list \<Rightarrow> nat option" where
  "findIndex P [] = None"
| "findIndex P (x # xs) = (if P x then Some 0 else map_option Suc (findIndex P xs))"

section \<open>Step 4: detection of missed appointments\<close>

definition gracePeriod :: int where
  "gracePeriod = 15 * 60 * 1000"

definition isStale :: "int \<Rightarrow> appointment \<Rightarrow> bool" where
  "isStale now a \<longleftrightarrow>
     (status a = Scheduled \<or> status a = Rescheduled) \<and> appointmentTime a \<le> now - gracePeriod"

definition checkMissedAppointments :: "int \<Rightarrow> store \<Rightarrow> store" where
  "checkMissedAppointments now s =
     s\<lparr>appointments :=
         map (\<lambda>a. if isStale now a then a\<lparr>status := Missed\<rparr> else a) (appointments s)\<rparr>"

section \<open>Update of a doctor's slots\<close>

text \<open>
  An invalid \<open>date\<close> in the request ends in the handler's catch without a write: its
  \<open>toISOString()\<close> throws in the callback of \<open>find\<close>, and on an empty schedule,
  where the callback is not run, the save of the pushed entry is refused.
\<close>

definition update_slots ::
  "(store_op \<Rightarrow> bool) \<Rightarrow> string \<Rightarrow> int \<Rightarrow> string list \<Rightarrow> store \<Rightarrow> response \<times> store" where
  "update_slots fails dId dt newSlots s =
     (if fails FindDoctor then (ErrorUpdatingSlots, s)
      else case doctors s dId of
        None \<Rightarrow> (DoctorNotFound, s)
      | Some doc \<Rightarrow>
          if \<not> validDate dt then (ErrorUpdatingSlots, s)
          else
            let sched =
              (case findIndex (\<lambda>day. isoDate (date day) = isoDate dt) (schedule doc) of
                 None \<Rightarrow> schedule doc @ [\<lparr>date = dt, availableSlots = newSlots\<rparr>]
               | Some i \<Rightarrow> (schedule doc)[i := (schedule doc ! i)\<lparr>availableSlots := newSlots\<rparr>])
            in if fails SaveDoctor then (ErrorUpdatingSlots, s)
               else (SlotsUpdated,
                     s\<lparr>doctors := (doctors s)(dId \<mapsto> doc\<lparr>schedule := sched\<rparr>)\<rparr>))"

section \<open>Step 7: booking\<close>

definition book_appointment ::
  "(store_op \<Rightarrow> bool) \<Rightarrow> string \<Rightarrow> string \<Rightarrow> string \<Rightarrow> int \<Rightarrow> store \<Rightarrow> response \<times> store" where
  "book_appointment fails pName pEmail dId t s =
     (if fails FindDoctor then (ErrorBooking, s)
      else case doctors s dId of
        None \<Rightarrow> (DoctorNotFound, s)
      | Some doc \<Rightarrow>
          if \<not> validDate t then (ErrorBooking, s)
          else
            (case findIndex (\<lambda>day. isoDate (date day) = isoDate t) (schedule doc) of
               None \<Rightarrow> (SlotNotAvailable, s)
             | Some i \<Rightarrow>
                 if isoTime t \<notin> set (availableSlots (schedule doc ! i))
                 then (SlotNotAvailable, s)
                 else if fails SaveAppointment then (ErrorBooking, s)
                 else
                   let s1 = s\<lparr>appointments := appointments s @
                              [\<lparr>patientName = pName, patientEmail = pEmail, doctorId = dId,
                                appointmentTime = t, status = Scheduled\<rparr>]\<rparr>;
                       sched = (schedule doc)[i := (schedule doc ! i)
                                 \<lparr>availableSlots :=
                                    filter (\<lambda>slot. slot \<noteq> isoTime t)
                                      (availableSlots (schedule doc ! i))\<rparr>]
                   in if fails SaveDoctor then (ErrorBooking, s1)
                      else (AppointmentBooked,
                            s1\<lparr>doctors := (doctors s1)(dId \<mapsto> doc\<lparr>schedule := sched\<rparr>)\<rparr>)))"

section \<open>Booking, await by await\<close>

text \<open>
  The booking handler awaits the database three times: the lookup of the doctor, the save
  of the appointment and the save of the doctor. Between two awaits it runs alone; at an
  await another request may run. A request is at the start, has checked the slot on the
  doctor it read, has saved its appointment, or has answered.
\<close>

datatype book_pc =
  BookStart | BookChecked doctor nat | BookSaved doctor nat | BookDone response

fun book_step ::
  "(store_op \<Rightarrow> bool) \<Rightarrow> string \<Rightarrow> string \<Rightarrow> string \<Rightarrow> int \<Rightarrow> book_pc \<Rightarrow> store
     \<Rightarrow> book_pc \<times> store" where
  "book_step fails pName pEmail dId t BookStart s =
     (if fails FindDoctor then (BookDone ErrorBooking, s)
      else case doctors s dId of
        None \<Rightarrow> (BookDone DoctorNotFound, s)
      | Some doc \<Rightarrow>
          if \<not> validDate t then (BookDone ErrorBooking, s)
          else
            (case findIndex (\<lambda>day. isoDate (date day) = isoDate t) (schedule doc) of
               None \<Rightarrow> (BookDone SlotNotAvailable, s)
             | Some i \<Rightarrow>
                 if isoTime t \<notin> set (availableSlots (schedule doc ! i))
                 then (BookDone SlotNotAvailable, s)
                 else (BookChecked doc i, s)))"
| "book_step fails pName pEmail dId t (BookChecked doc i) s =
     (if fails SaveAppointment then (BookDone ErrorBooking, s)
      else (BookSaved doc i,
            s\<lparr>appointments := appointments s @
               [\<lparr>patientName = pName, patientEmail = pEmail, doctorId = dId,
                 appointmentTime = t, status = Scheduled\<rparr>]\<rparr>))"
| "book_step fails pName pEmail dId t (BookSaved doc i) s =
     (if fails SaveDoctor then (BookDone ErrorBooking, s)
      else (BookDone AppointmentBooked,
            s\<lparr>doctors := (doctors s)(dId \<mapsto> doc\<lparr>schedule :=
               (schedule doc)[i := (schedule doc ! i)
                  \<lparr>availableSlots :=
                     filter (\<lambda>slot. slot \<noteq> isoTime t)
                       (availableSlots (schedule doc ! i))\<rparr>]\<rparr>)\<rparr>))"
| "book_step fails pName pEmail dId t (BookDone r) s = (BookDone r, s)"

text \<open>One request alone: its three steps in a row.\<close>

definition book_steps ::
  "(store_op \<Rightarrow> bool) \<Rightarrow> string \<Rightarrow> string \<Rightarrow> string \<Rightarrow> int \<Rightarrow> store \<Rightarrow> book_pc \<times> store" where
  "book_steps fails pName pEmail dId t s =
     (case book_step fails pName pEmail dId t BookStart s of
        (p1, s1) \<Rightarrow>
          (case book_step fails pName pEmail dId t p1 s1 of
             (p2, s2) \<Rightarrow> book_step fails pName pEmail dId t p2 s2))"

text \<open>
  Two callers book the same doctor and time. A schedule says whose step is next; the store
  is shared, the place in the handler and the doctor read are each caller's own.
\<close>

datatype caller = CallerA | CallerB

fun book_two ::
  "(store_op \<Rightarrow> bool) \<Rightarrow> string \<Rightarrow> string \<Rightarrow> (store_op \<Rightarrow> bool) \<Rightarrow> string \<Rightarrow> string \<Rightarrow>
     string \<Rightarrow> int \<Rightarrow> caller list \<Rightarrow> book_pc \<times> book_pc \<times> store \<Rightarrow> book_pc \<times> book_pc \<times> store"
  where
  "book_two fA nA eA fB nB eB dId t [] c = c"
| "book_two fA nA eA fB nB eB dId t (CallerA # sch) (pa, pb, s) =
     (case book_step fA nA eA dId t pa s of
        (pa', s') \<Rightarrow> book_two fA nA eA fB nB eB dId t sch (pa', pb, s'))"
| "book_two fA nA eA fB nB eB dId t (CallerB # sch) (pa, pb, s) =
     (case book_step fB nB eB dId t pb s of
        (pb', s') \<Rightarrow> book_two fA nA eA fB nB eB dId t sch (pa, pb', s'))"

section \<open>Steps 8 and 9: conflict guard and reschedule\<close>

text \<open>
  The middleware answers itself (\<open>Some\<close>) or calls \<open>next()\<close> (\<open>None\<close>). The
  \<open>doctorId\<close> is the one of the request body. A query on an invalid date is rejected by
  the database layer and caught.
\<close>

definition preventDoubleBooking ::
  "(store_op \<Rightarrow> bool) \<Rightarrow> int \<Rightarrow> string \<Rightarrow> newSlot \<Rightarrow> store \<Rightarrow> response option" where
  "preventDoubleBooking fails tz dId ns s =
     (if fails FindOverlap then Some ErrorCheckingSlot
      else case slotInstant tz ns of
        None \<Rightarrow> Some ErrorCheckingSlot
      | Some ts \<Rightarrow>
          if list_ex (\<lambda>a. doctorId a = dId \<and> appointmentTime a = ts) (appointments s)
          then Some SlotAlreadyBooked else None)"

definition reschedule_handler ::
  "(store_op \<Rightarrow> bool) \<Rightarrow> int \<Rightarrow> nat \<Rightarrow> newSlot \<Rightarrow> store \<Rightarrow> response \<times> store" where
  "reschedule_handler fails tz appointmentId ns s =
     (if fails FindAppointment then (ErrorRescheduling, s)
      else if length (appointments s) \<le> appointmentId then (AppointmentNotFound, s)
      else
        let appt = appointments s ! appointmentId in
        if fails FindDoctor then (ErrorRescheduling, s)
        else case doctors s (doctorId appt) of
          None \<Rightarrow> (DoctorNotFound, s)
        | Some doc \<Rightarrow>
            (case findIndex (\<lambda>day. toDateString tz (date day) = toDateString tz (slotDay ns))
                    (schedule doc) of
               None \<Rightarrow> (SlotNotAvailable, s)
             | Some slotIndex \<Rightarrow>
                 if slotTime ns \<notin> set (availableSlots (schedule doc ! slotIndex))
                 then (SlotNotAvailable, s)
                 else (case slotInstant tz ns of
                    None \<Rightarrow> (ErrorRescheduling, s)
                  | Some ts \<Rightarrow>
                     if fails SaveAppointment then (ErrorRescheduling, s)
                     else
                       let s1 = s\<lparr>appointments := (appointments s)
                                  [appointmentId := appt\<lparr>status := Rescheduled,
                                                         appointmentTime := ts\<rparr>]\<rparr>;
                           sched = (schedule doc)[slotIndex := (schedule doc ! slotIndex)
                                     \<lparr>availableSlots :=
                                        filter (\<lambda>slot. slot \<noteq> slotTime ns)
                                          (availableSlots (schedule doc ! slotIndex))\<rparr>];
                           s2 = s1\<lparr>doctors :=
                                     (doctors s1)(doctorId appt \<mapsto> doc\<lparr>schedule := sched\<rparr>)\<rparr>
                       in if fails SaveDoctor then (ErrorRescheduling, s1)
                          else if fails SendMail then (ErrorNotifying, s2)
                          else (RescheduledNotified, s2))))"

definition reschedule ::
  "(store_op \<Rightarrow> bool) \<Rightarrow> int \<Rightarrow> nat \<Rightarrow> string \<Rightarrow> newSlot \<Rightarrow> store \<Rightarrow> response \<times> store" where
  "reschedule fails tz appointmentId dId ns s =
     (case preventDoubleBooking fails tz dId ns s of
        Some r \<Rightarrow> (r, s)
      | None \<Rightarrow> reschedule_handler fails tz appointmentId ns s)"

section \<open>Availability and occupation\<close>

text \<open>
  The slots a doctor offers on a calendar day, looked up as the booking handler does: the
  first entry of the schedule whose date falls on that day; none when the doctor or the
  entry is absent.
\<close>

definition slotsOn :: "day_schedule list \<Rightarrow> int \<Rightarrow> string list" where
  "slotsOn sched day =
     (case findIndex (\<lambda>e. isoDate (date e) = day) sched of
        None \<Rightarrow> []
      | Some i \<Rightarrow> availableSlots (sched ! i))"

definition getAvailability :: "store \<Rightarrow> string \<Rightarrow> int \<Rightarrow> string list" where
  "getAvailability s dId day =
     (case doctors s dId of
        None \<Rightarrow> []
      | Some doc \<Rightarrow> slotsOn (schedule doc) day)"

text \<open>
  The same, looked up as the reschedule handler does, by the local calendar day of the
  request's \<open>newSlot.date\<close>.
\<close>

definition localAvailability :: "int \<Rightarrow> store \<Rightarrow> string \<Rightarrow> newSlot \<Rightarrow> string list" where
  "localAvailability tz s dId ns =
     (case doctors s dId of
        None \<Rightarrow> []
      | Some doc \<Rightarrow>
          (case findIndex (\<lambda>day. toDateString tz (date day) = toDateString tz (slotDay ns))
                  (schedule doc) of
             None \<Rightarrow> []
           | Some i \<Rightarrow> availableSlots (schedule doc ! i)))"

definition active :: "appointment \<Rightarrow> bool" where
  "active a \<longleftrightarrow> status a = Scheduled \<or> status a = Rescheduled"

text \<open>The times of day held on a doctor's day by active appointments.\<close>

definition occupied :: "store \<Rightarrow> string \<Rightarrow> int \<Rightarrow> string set" where
  "occupied s dId day =
     {isoTime (appointmentTime a) | a.
        a \<in> set (appointments s) \<and> active a \<and> doctorId a = dId
          \<and> isoDate (appointmentTime a) = day}"

definition slotsDisjoint :: "store \<Rightarrow> bool" where
  "slotsDisjoint s \<longleftrightarrow>
     (\<forall>dId day. set (getAvailability s dId day) \<inter> occupied s dId day = {})"

text \<open>The same property, appointment by appointment.\<close>

definition slotsConsistent :: "store \<Rightarrow> bool" where
  "slotsConsistent s \<longleftrightarrow>
     list_all (\<lambda>a. active a \<longrightarrow>
                 isoTime (appointmentTime a)
                   \<notin> set (getAvailability s (doctorId a) (isoDate (appointmentTime a))))
       (appointments s)"

text \<open>All the slots a doctor offers, over the whole schedule.\<close>

definition slotCount :: "store \<Rightarrow> string \<Rightarrow> nat" where
  "slotCount s dId =
     (case doctors s dId of
        None \<Rightarrow> 0
      | Some doc \<Rightarrow> sum_list (map (\<lambda>e. length (availableSlots e)) (schedule doc)))"

section \<open>Example stores\<close>

text \<open>
  Doctor D1 offers 10:00 and 11:00 on 2024-06-01 (day 19875, midnight at 1717200000000).
\<close>

definition exDoctor :: doctor where
  "exDoctor = \<lparr>name = ''Dora'', email = ''dora@x.com'',
     schedule = [\<lparr>date = 1717200000000, availableSlots = [''10:00'', ''11:00'']\<rparr>]\<rparr>"

definition exStore :: store where
  "exStore = \<lparr>appointments = [], doctors = [''D1'' \<mapsto> exDoctor]\<rparr>"

definition exAppt :: "int \<Rightarrow> appt_status \<Rightarrow> appointment" where
  "exAppt t st = \<lparr>patientName = ''Alice'', patientEmail = ''a@x.com'', doctorId = ''D1'',
     appointmentTime = t, status = st\<rparr>"

definition noFault :: "store_op \<Rightarrow> bool" where
  "noFault op = False"

definition onlyFails :: "store_op \<Rightarrow> store_op \<Rightarrow> bool" where
  "onlyFails x op \<longleftrightarrow> op = x"

text \<open>Alice holds 10:00 on that day; 11:00 is still offered.\<close>

definition exBooked :: store where
  "exBooked = \<lparr>appointments = [exAppt 1717236000000 Scheduled],
     doctors = [''D1'' \<mapsto> exDoctor\<lparr>schedule :=
       [\<lparr>date = 1717200000000, availableSlots = [''11:00'']\<rparr>]\<rparr>]\<rparr>"

text \<open>The same after the sweep has marked Alice's appointment as missed.\<close>

definition exMissed :: store where
  "exMissed = exBooked\<lparr>appointments := [exAppt 1717236000000 Missed]\<rparr>"

text \<open>
  Alice holds 10:00 and Bob 11:00, and the administrator has opened 11:00 again.
\<close>

definition exReopened :: store where
  "exReopened = \<lparr>appointments = [exAppt 1717236000000 Scheduled,
       (exAppt 1717239600000 Scheduled)\<lparr>patientName := ''Bob'', patientEmail := ''b@x.com''\<rparr>],
     doctors = [''D1'' \<mapsto> exDoctor\<lparr>schedule :=
       [\<lparr>date = 1717200000000, availableSlots = [''11:00'']\<rparr>]\<rparr>]\<rparr>"

text \<open>Alice holds 10:00; 11:00 and 16:00 are offered.\<close>

definition exAfternoon :: store where
  "exAfternoon = \<lparr>appointments = [exAppt 1717236000000 Scheduled],
     doctors = [''D1'' \<mapsto> exDoctor\<lparr>schedule :=
       [\<lparr>date = 1717200000000, availableSlots = [''11:00'', ''16:00'']\<rparr>]\<rparr>]\<rparr>"

definition elevenOClock :: newSlot where
  "elevenOClock = \<lparr>slotDate = 19875, slotHour = 11, slotMinute = 0\<rparr>"

lemmas time_defs = validDate_def isoDate_def isoTime_def hhmm_def pad2_def digit_def
  toDateString_def slotTime_def slotDay_def slotInstant_def

lemmas ex_defs = exStore_def exDoctor_def exAppt_def noFault_def onlyFails_def exBooked_def
  exMissed_def exReopened_def exAfternoon_def elevenOClock_def

lemmas op_defs = book_appointment_def update_slots_def reschedule_def reschedule_handler_def
  preventDoubleBooking_def checkMissedAppointments_def isStale_def gracePeriod_def

lemmas avail_defs = getAvailability_def slotsOn_def localAvailability_def slotCount_def
  slotsConsistent_def active_def

section \<open>Lookups and updated schedules\<close>

lemma findIndex_None: "findIndex P xs = None \<longleftrightarrow> (\<forall>x\<in>set xs. \<not> P x)"
  by (induction xs) auto

lemma findIndex_Some:
  "findIndex P xs = Some i \<Longrightarrow> i < length xs \<and> P (xs ! i)"
  by (induction xs arbitrary: i) (auto split: if_splits)

lemma findIndex_update:
  "i < length xs \<Longrightarrow> P y = P (xs ! i) \<Longrightarrow> findIndex P (xs[i := y]) = findIndex P xs"
proof (induction xs arbitrary: i)
  case Nil
  then show ?case by simp
next
  case (Cons x xs)
  then show ?case by (cases i) auto
qed

lemma slotsOn_update:
  assumes "i < length sched"
  shows "slotsOn (sched[i := (sched ! i)\<lparr>availableSlots := ys\<rparr>]) day =
     (if findIndex (\<lambda>e. isoDate (date e) = day) sched = Some i then ys else slotsOn sched day)"
proof -
  let ?P = "\<lambda>e. isoDate (date e) = day"
  have same: "findIndex ?P (sched[i := (sched ! i)\<lparr>availableSlots := ys\<rparr>]) = findIndex ?P sched"
    using assms by (rule findIndex_update) simp
  show ?thesis
  proof (cases "findIndex ?P sched")
    case None
    then show ?thesis using same by (simp add: slotsOn_def)
  next
    case (Some j)
    then have "j < length sched" by (simp add: findIndex_Some)
    then show ?thesis using same Some assms by (auto simp: slotsOn_def)
  qed
qed

lemma getAvailability_appointments [simp]:
  "getAvailability (s\<lparr>appointments := as\<rparr>) dId day = getAvailability s dId day"
  by (simp add: getAvailability_def)

lemma getAvailability_update:
  assumes "doctors s dId = Some doc" "i < length (schedule doc)"
  shows "getAvailability
           (s\<lparr>doctors := (doctors s)(dId \<mapsto> doc\<lparr>schedule :=
               (schedule doc)[i := (schedule doc ! i)\<lparr>availableSlots := ys\<rparr>]\<rparr>)\<rparr>) d day =
         (if d = dId \<and> findIndex (\<lambda>e. isoDate (date e) = day) (schedule doc) = Some i
          then ys else getAvailability s d day)"
  using assms by (simp add: getAvailability_def slotsOn_update)

lemma slotsDisjoint_iff: "slotsDisjoint s \<longleftrightarrow> slotsConsistent s"
proof
  assume d: "slotsDisjoint s"
  show "slotsConsistent s"
    unfolding slotsConsistent_def list_all_iff
  proof (intro ballI impI)
    fix a assume a: "a \<in> set (appointments s)" "active a"
    then have "isoTime (appointmentTime a) \<in> occupied s (doctorId a) (isoDate (appointmentTime a))"
      unfolding occupied_def by blast
    moreover have "set (getAvailability s (doctorId a) (isoDate (appointmentTime a)))
        \<inter> occupied s (doctorId a) (isoDate (appointmentTime a)) = {}"
      using d unfolding slotsDisjoint_def by blast
    ultimately show "isoTime (appointmentTime a)
        \<notin> set (getAvailability s (doctorId a) (isoDate (appointmentTime a)))"
      by blast
  qed
next
  assume c: "slotsConsistent s"
  show "slotsDisjoint s"
    unfolding slotsDisjoint_def
  proof (intro allI)
    fix dId day
    show "set (getAvailability s dId day) \<inter> occupied s dId day = {}"
    proof (rule ccontr)
      assume "set (getAvailability s dId day) \<inter> occupied s dId day \<noteq> {}"
      then obtain x where x: "x \<in> set (getAvailability s dId day)" "x \<in> occupied s dId day"
        by blast
      from x(2) obtain a where a: "a \<in> set (appointments s)" "active a" "doctorId a = dId"
          "isoDate (appointmentTime a) = day" "x = isoTime (appointmentTime a)"
        unfolding occupied_def by blast
      from c a(1,2) have "isoTime (appointmentTime a)
          \<notin> set (getAvailability s (doctorId a) (isoDate (appointmentTime a)))"
        unfolding slotsConsistent_def list_all_iff by blast
      with x(1) a show False by simp
    qed
  qed
qed

section \<open>The sweep\<close>

lemma sweep_length:
  "length (appointments (checkMissedAppointments now s)) = length (appointments s)"
  by (simp add: checkMissedAppointments_def)

lemma sweep_nth:
  "i < length (appointments s) \<Longrightarrow>
   appointments (checkMissedAppointments now s) ! i =
     (if isStale now (appointments s ! i) then (appointments s ! i)\<lparr>status := Missed\<rparr>
      else appointments s ! i)"
  by (simp add: checkMissedAppointments_def)

lemma sweep_doctors: "doctors (checkMissedAppointments now s) = doctors s"
  by (simp add: checkMissedAppointments_def)

text \<open>
  C6. One run of the sweep at time \<open>now\<close> changes exactly the appointments that are
  Scheduled or Rescheduled and lie at least 15 minutes (900000 ms) back: these become
  Missed, with every other field kept, and every other appointment is left as it is. An
  appointment Scheduled 16 minutes back becomes Missed; one 10 minutes back keeps its
  status.
\<close>

theorem sweep_marks_exactly_stale:
  assumes "i < length (appointments s)"
  shows "length (appointments (checkMissedAppointments now s)) = length (appointments s)
    \<and> appointments (checkMissedAppointments now s) ! i =
        (if (status (appointments s ! i) = Scheduled \<or> status (appointments s ! i) = Rescheduled)
            \<and> appointmentTime (appointments s ! i) \<le> now - 900000
         then (appointments s ! i)\<lparr>status := Missed\<rparr> else appointments s ! i)
    \<and> (appointmentTime (appointments s ! i) = now - 16 * 60000
          \<and> status (appointments s ! i) = Scheduled
        \<longrightarrow> status (appointments (checkMissedAppointments now s) ! i) = Missed)
    \<and> (appointmentTime (appointments s ! i) = now - 10 * 60000
        \<longrightarrow> status (appointments (checkMissedAppointments now s) ! i)
              = status (appointments s ! i))"
  using assms by (simp add: sweep_length sweep_nth isStale_def gracePeriod_def)

theorem sweep_marks_exactly_stale_witness:
  "status (appointments (checkMissedAppointments 1717237000000
      \<lparr>appointments = [exAppt (1717237000000 - 16 * 60000) Scheduled,
                       exAppt (1717237000000 - 10 * 60000) Scheduled],
       doctors = Map.empty\<rparr>) ! 0) = Missed
   \<and> status (appointments (checkMissedAppointments 1717237000000
      \<lparr>appointments = [exAppt (1717237000000 - 16 * 60000) Scheduled,
                       exAppt (1717237000000 - 10 * 60000) Scheduled],
       doctors = Map.empty\<rparr>) ! 1) = Scheduled"
  using
    sweep_marks_exactly_stale [of 0 "\<lparr>appointments = [exAppt (1717237000000 - 16 * 60000) Scheduled,
                       exAppt (1717237000000 - 10 * 60000) Scheduled],
       doctors = Map.empty\<rparr>" 1717237000000]
    sweep_marks_exactly_stale [of 1 "\<lparr>appointments = [exAppt (1717237000000 - 16 * 60000) Scheduled,
                       exAppt (1717237000000 - 10 * 60000) Scheduled],
       doctors = Map.empty\<rparr>" 1717237000000]
  by (simp add: exAppt_def)

text \<open>
  C9. A run of the sweep leaves the doctors, and with them every schedule, as they were:
  the slots offered by any doctor on any day are the same before and after, so the slot
  of an appointment that became Missed is not offered again.
\<close>

theorem sweep_keeps_schedules:
  "doctors (checkMissedAppointments now s) = doctors s
   \<and> getAvailability (checkMissedAppointments now s) dId day = getAvailability s dId day
   \<and> slotCount (checkMissedAppointments now s) dId = slotCount s dId"
  by (simp add: sweep_doctors getAvailability_def slotCount_def)

section \<open>Booking\<close>

lemma book_failed_doctors:
  "fst (book_appointment fails pName pEmail dId t s) \<noteq> AppointmentBooked \<Longrightarrow>
   doctors (snd (book_appointment fails pName pEmail dId t s)) = doctors s"
  by (auto simp: book_appointment_def Let_def split: option.splits if_splits)

lemma book_create_fails:
  "fails SaveAppointment \<Longrightarrow> snd (book_appointment fails pName pEmail dId t s) = s"
  by (auto simp: book_appointment_def Let_def split: option.splits if_splits)

lemma book_create_fails_response:
  "fails SaveAppointment \<Longrightarrow> fst (book_appointment fails pName pEmail dId t s) \<noteq> AppointmentBooked"
  by (auto simp: book_appointment_def Let_def split: option.splits if_splits)

lemma getAvailability_cong:
  "doctors s' = doctors s \<Longrightarrow> getAvailability s' d day = getAvailability s d day"
  by (simp add: getAvailability_def)

lemma slotCount_cong: "doctors s' = doctors s \<Longrightarrow> slotCount s' d = slotCount s d"
  by (simp add: slotCount_def)

lemma offered_entry:
  assumes "x \<in> set (getAvailability s dId day)"
  obtains doc i where "doctors s dId = Some doc"
    "findIndex (\<lambda>e. isoDate (date e) = day) (schedule doc) = Some i"
    "i < length (schedule doc)"
    "x \<in> set (availableSlots (schedule doc ! i))"
    "getAvailability s dId day = availableSlots (schedule doc ! i)"
proof (cases "doctors s dId")
  case None
  with assms show ?thesis by (simp add: getAvailability_def)
next
  case (Some doc)
  show ?thesis
  proof (cases "findIndex (\<lambda>e. isoDate (date e) = day) (schedule doc)")
    case None
    with assms Some show ?thesis by (simp add: getAvailability_def slotsOn_def)
  next
    case i: (Some i)
    then have "i < length (schedule doc)" by (simp add: findIndex_Some)
    moreover have "getAvailability s dId day = availableSlots (schedule doc ! i)"
      using Some i by (simp add: getAvailability_def slotsOn_def)
    ultimately show ?thesis using that [OF Some i] assms by simp
  qed
qed

text \<open>
  C5, as the code has it. Book has no reservation and no compensating release: on an
  offered slot it saves the appointment first and takes the slot out of the schedule
  afterwards. When the creation of the appointment fails, nothing has been written and the
  store is as before the call. When the save of the doctor fails after the appointment was
  created, Book answers "Error booking appointment", the appointment stays stored as
  Scheduled and its slot is still offered. When neither fails, the appointment is stored
  and the slot is no longer offered. After any Book that does not answer with success the
  doctors are as before the call: every doctor offers the same slots on every day.
\<close>

theorem book_writes_without_compensation:
  "(fst (book_appointment fails pName pEmail dId t s) \<noteq> AppointmentBooked \<longrightarrow>
      doctors (snd (book_appointment fails pName pEmail dId t s)) = doctors s
    \<and> getAvailability (snd (book_appointment fails pName pEmail dId t s)) d day
        = getAvailability s d day
    \<and> slotCount (snd (book_appointment fails pName pEmail dId t s)) d = slotCount s d)
   \<and> (\<not> fails FindDoctor \<and> validDate t
        \<and> isoTime t \<in> set (getAvailability s dId (isoDate t)) \<longrightarrow>
      (fails SaveAppointment \<longrightarrow>
         book_appointment fails pName pEmail dId t s = (ErrorBooking, s))
    \<and> (\<not> fails SaveAppointment \<and> fails SaveDoctor \<longrightarrow>
         book_appointment fails pName pEmail dId t s =
           (ErrorBooking,
            s\<lparr>appointments := appointments s @
               [\<lparr>patientName = pName, patientEmail = pEmail, doctorId = dId,
                 appointmentTime = t, status = Scheduled\<rparr>]\<rparr>))
    \<and> (\<not> fails SaveAppointment \<and> \<not> fails SaveDoctor \<longrightarrow>
         fst (book_appointment fails pName pEmail dId t s) = AppointmentBooked
       \<and> appointments (snd (book_appointment fails pName pEmail dId t s)) =
           appointments s @
             [\<lparr>patientName = pName, patientEmail = pEmail, doctorId = dId,
               appointmentTime = t, status = Scheduled\<rparr>]
       \<and> getAvailability (snd (book_appointment fails pName pEmail dId t s)) dId (isoDate t)
           = filter (\<lambda>slot. slot \<noteq> isoTime t) (getAvailability s dId (isoDate t))))"
proof (intro conjI impI)
  assume f: "fst (book_appointment fails pName pEmail dId t s) \<noteq> AppointmentBooked"
  note k = book_failed_doctors [OF f]
  show "doctors (snd (book_appointment fails pName pEmail dId t s)) = doctors s" by (rule k)
  show "getAvailability (snd (book_appointment fails pName pEmail dId t s)) d day
      = getAvailability s d day"
    using k by (rule getAvailability_cong)
  show "slotCount (snd (book_appointment fails pName pEmail dId t s)) d = slotCount s d"
    using k by (rule slotCount_cong)
next
  assume h: "\<not> fails FindDoctor \<and> validDate t
      \<and> isoTime t \<in> set (getAvailability s dId (isoDate t))"
  then have nf: "\<not> fails FindDoctor" and v: "validDate t"
    and off: "isoTime t \<in> set (getAvailability s dId (isoDate t))"
    by simp_all
  from off obtain doc i where doc: "doctors s dId = Some doc"
    and i: "findIndex (\<lambda>e. isoDate (date e) = isoDate t) (schedule doc) = Some i"
    and il: "i < length (schedule doc)"
    and mem: "isoTime t \<in> set (availableSlots (schedule doc ! i))"
    and av: "getAvailability s dId (isoDate t) = availableSlots (schedule doc ! i)"
    by (rule offered_entry)
  show "book_appointment fails pName pEmail dId t s = (ErrorBooking, s)"
    if "fails SaveAppointment"
    using that nf v doc i mem by (simp add: book_appointment_def)
  show "book_appointment fails pName pEmail dId t s =
      (ErrorBooking,
       s\<lparr>appointments := appointments s @
          [\<lparr>patientName = pName, patientEmail = pEmail, doctorId = dId,
            appointmentTime = t, status = Scheduled\<rparr>]\<rparr>)"
    if "\<not> fails SaveAppointment \<and> fails SaveDoctor"
    using that nf v doc i mem by (simp add: book_appointment_def)
  assume ok: "\<not> fails SaveAppointment \<and> \<not> fails SaveDoctor"
  have b: "book_appointment fails pName pEmail dId t s =
      (AppointmentBooked,
       s\<lparr>appointments := appointments s @
          [\<lparr>patientName = pName, patientEmail = pEmail, doctorId = dId,
            appointmentTime = t, status = Scheduled\<rparr>],
         doctors := (doctors s)(dId \<mapsto> doc\<lparr>schedule := (schedule doc)[i := (schedule doc ! i)
            \<lparr>availableSlots := filter (\<lambda>slot. slot \<noteq> isoTime t)
                (availableSlots (schedule doc ! i))\<rparr>]\<rparr>)\<rparr>)"
    using ok nf v doc i mem by (simp add: book_appointment_def)
  show "fst (book_appointment fails pName pEmail dId t s) = AppointmentBooked"
    by (simp add: b)
  show "appointments (snd (book_appointment fails pName pEmail dId t s)) =
      appointments s @
        [\<lparr>patientName = pName, patientEmail = pEmail, doctorId = dId,
          appointmentTime = t, status = Scheduled\<rparr>]"
    by (simp add: b)
  show "getAvailability (snd (book_appointment fails pName pEmail dId t s)) dId (isoDate t)
      = filter (\<lambda>slot. slot \<noteq> isoTime t) (getAvailability s dId (isoDate t))"
  proof -
    have d1: "doctors (s\<lparr>appointments := appointments s @
          [\<lparr>patientName = pName, patientEmail = pEmail, doctorId = dId,
            appointmentTime = t, status = Scheduled\<rparr>]\<rparr>) dId = Some doc"
      using doc by simp
    show ?thesis
      using getAvailability_update [OF d1 il,
          of "filter (\<lambda>slot. slot \<noteq> isoTime t) (availableSlots (schedule doc ! i))"
            dId "isoDate t"] i
      by (simp add: b av)
  qed
qed

theorem book_writes_without_compensation_witness:
  "book_appointment (onlyFails SaveAppointment) ''Alice'' ''a@x.com'' ''D1'' 1717236000000 exStore
     = (ErrorBooking, exStore)
   \<and> book_appointment (onlyFails SaveDoctor) ''Alice'' ''a@x.com'' ''D1'' 1717236000000 exStore
     = (ErrorBooking, exStore\<lparr>appointments := appointments exStore @
         [\<lparr>patientName = ''Alice'', patientEmail = ''a@x.com'', doctorId = ''D1'',
           appointmentTime = 1717236000000, status = Scheduled\<rparr>]\<rparr>)
   \<and> fst (book_appointment noFault ''Alice'' ''a@x.com'' ''D1'' 1717236000000 exStore)
     = AppointmentBooked
   \<and> getAvailability (snd (book_appointment noFault ''Alice'' ''a@x.com'' ''D1'' 1717236000000
        exStore)) ''D1'' (isoDate 1717236000000)
     = filter (\<lambda>slot. slot \<noteq> isoTime 1717236000000)
         (getAvailability exStore ''D1'' (isoDate 1717236000000))"
proof -
  have off: "isoTime 1717236000000
      \<in> set (getAvailability exStore ''D1'' (isoDate 1717236000000))"
    by (simp add: avail_defs ex_defs time_defs)
  have v: "validDate 1717236000000" by (simp add: validDate_def)
  have f: "\<not> onlyFails SaveAppointment FindDoctor" "onlyFails SaveAppointment SaveAppointment"
    "\<not> onlyFails SaveDoctor FindDoctor" "\<not> onlyFails SaveDoctor SaveAppointment"
    "onlyFails SaveDoctor SaveDoctor"
    "\<not> noFault FindDoctor" "\<not> noFault SaveAppointment" "\<not> noFault SaveDoctor"
    by (simp_all add: onlyFails_def noFault_def)
  note t1 = book_writes_without_compensation [where fails = "onlyFails SaveAppointment"
      and pName = "''Alice''" and pEmail = "''a@x.com''" and dId = "''D1''"
      and t = 1717236000000 and s = exStore]
  note t2 = book_writes_without_compensation [where fails = "onlyFails SaveDoctor"
      and pName = "''Alice''" and pEmail = "''a@x.com''" and dId = "''D1''"
      and t = 1717236000000 and s = exStore]
  note t3 = book_writes_without_compensation [where fails = noFault
      and pName = "''Alice''" and pEmail = "''a@x.com''" and dId = "''D1''"
      and t = 1717236000000 and s = exStore]
  from t1 off v f(1,2) have a: "book_appointment (onlyFails SaveAppointment) ''Alice'' ''a@x.com''
      ''D1'' 1717236000000 exStore = (ErrorBooking, exStore)"
    by blast
  from t2 off v f(3,4,5) have b: "book_appointment (onlyFails SaveDoctor) ''Alice'' ''a@x.com''
      ''D1'' 1717236000000 exStore
     = (ErrorBooking, exStore\<lparr>appointments := appointments exStore @
         [\<lparr>patientName = ''Alice'', patientEmail = ''a@x.com'', doctorId = ''D1'',
           appointmentTime = 1717236000000, status = Scheduled\<rparr>]\<rparr>)"
    by blast
  from t3 off v f(6,7,8) have c: "fst (book_appointment noFault ''Alice'' ''a@x.com'' ''D1''
      1717236000000 exStore) = AppointmentBooked
    \<and> getAvailability (snd (book_appointment noFault ''Alice'' ''a@x.com'' ''D1'' 1717236000000
        exStore)) ''D1'' (isoDate 1717236000000)
     = filter (\<lambda>slot. slot \<noteq> isoTime 1717236000000)
         (getAvailability exStore ''D1'' (isoDate 1717236000000))"
    by blast
  from a b c show ?thesis by blast
qed

text \<open>
  C5 fails as stated: the save of the doctor fails after the appointment was saved; Book
  answers with the error, nothing is undone, and the store is not as before the call: the
  appointment at 10:00 is stored while 10:00 is still offered.
\<close>

theorem book_failure_not_rolled_back_counterexample:
  "fst (book_appointment (onlyFails SaveDoctor) ''Alice'' ''a@x.com'' ''D1'' 1717236000000
      exStore) = ErrorBooking
   \<and> appointments exStore = []
   \<and> appointments (snd (book_appointment (onlyFails SaveDoctor) ''Alice'' ''a@x.com'' ''D1''
        1717236000000 exStore)) = [exAppt 1717236000000 Scheduled]
   \<and> isoTime 1717236000000 = ''10:00''
   \<and> ''10:00'' \<in> set (getAvailability (snd (book_appointment (onlyFails SaveDoctor) ''Alice''
        ''a@x.com'' ''D1'' 1717236000000 exStore)) ''D1'' (isoDate 1717236000000))"
  by (simp add: avail_defs op_defs ex_defs time_defs)

lemma book_invalid_date:
  "\<not> fails FindDoctor \<Longrightarrow> doctors s dId = Some doc \<Longrightarrow> \<not> validDate t \<Longrightarrow>
   book_appointment fails pName pEmail dId t s = (ErrorBooking, s)"
  by (simp add: book_appointment_def)

text \<open>
  C7. When the doctor is found and the requested time is a valid date, but the doctor has
  no schedule entry on the requested day, or the requested time of day is not among the
  slots offered on that day, Book answers "Slot not available" and the store is as before:
  no appointment is created and no schedule is changed. (A time that is not a valid date
  has no day and no time of day: Book answers "Error booking appointment", as
  \<open>book_invalid_date\<close> says.)
\<close>

theorem book_unavailable_no_change:
  assumes "\<not> fails FindDoctor" and "doctors s dId = Some doc" and "validDate t"
    and "(\<forall>e \<in> set (schedule doc). isoDate (date e) \<noteq> isoDate t)
         \<or> isoTime t \<notin> set (getAvailability s dId (isoDate t))"
  shows "book_appointment fails pName pEmail dId t s = (SlotNotAvailable, s)"
proof (cases "findIndex (\<lambda>day. isoDate (date day) = isoDate t) (schedule doc)")
  case None
  then show ?thesis using assms(1,2,3) by (simp add: book_appointment_def)
next
  case (Some i)
  then have "\<not> (\<forall>e \<in> set (schedule doc). isoDate (date e) \<noteq> isoDate t)"
    using findIndex_None [of "\<lambda>day. isoDate (date day) = isoDate t" "schedule doc"] by auto
  with assms(4) have "isoTime t \<notin> set (getAvailability s dId (isoDate t))" by blast
  then have "isoTime t \<notin> set (availableSlots (schedule doc ! i))"
    using Some assms(2) by (simp add: getAvailability_def slotsOn_def)
  then show ?thesis using Some assms(1,2,3) by (simp add: book_appointment_def)
qed

theorem book_unavailable_no_change_witness:
  "book_appointment noFault ''Bob'' ''b@x.com'' ''D1'' 1717236000000 exBooked
     = (SlotNotAvailable, exBooked)
   \<and> book_appointment noFault ''Bob'' ''b@x.com'' ''D1'' 1717322400000 exBooked
     = (SlotNotAvailable, exBooked)"
proof -
  have d: "doctors exBooked ''D1'' = Some (exDoctor\<lparr>schedule :=
       [\<lparr>date = 1717200000000, availableSlots = [''11:00'']\<rparr>]\<rparr>)"
    by (simp add: ex_defs)
  have nf: "\<not> noFault FindDoctor" by (simp add: noFault_def)
  have v: "validDate 1717236000000" "validDate 1717322400000" by (simp_all add: validDate_def)
  have taken: "isoTime 1717236000000
      \<notin> set (getAvailability exBooked ''D1'' (isoDate 1717236000000))"
    by (simp add: getAvailability_def slotsOn_def ex_defs time_defs)
  have noday: "\<forall>e \<in> set (schedule (exDoctor\<lparr>schedule :=
       [\<lparr>date = 1717200000000, availableSlots = [''11:00'']\<rparr>]\<rparr>)).
       isoDate (date e) \<noteq> isoDate 1717322400000"
    by (simp add: time_defs)
  have c1: "(\<forall>e \<in> set (schedule (exDoctor\<lparr>schedule :=
       [\<lparr>date = 1717200000000, availableSlots = [''11:00'']\<rparr>]\<rparr>)).
       isoDate (date e) \<noteq> isoDate 1717236000000)
     \<or> isoTime 1717236000000
         \<notin> set (getAvailability exBooked ''D1'' (isoDate 1717236000000))"
    using taken by (rule disjI2)
  have c2: "(\<forall>e \<in> set (schedule (exDoctor\<lparr>schedule :=
       [\<lparr>date = 1717200000000, availableSlots = [''11:00'']\<rparr>]\<rparr>)).
       isoDate (date e) \<noteq> isoDate 1717322400000)
     \<or> isoTime 1717322400000
         \<notin> set (getAvailability exBooked ''D1'' (isoDate 1717322400000))"
    using noday by (rule disjI1)
  show ?thesis
    using
      book_unavailable_no_change [where fails = noFault and s = exBooked and dId = "''D1''"
        and t = 1717236000000 and pName = "''Bob''" and pEmail = "''b@x.com''",
        OF nf d v(1) c1]
      book_unavailable_no_change [where fails = noFault and s = exBooked and dId = "''D1''"
        and t = 1717322400000 and pName = "''Bob''" and pEmail = "''b@x.com''",
        OF nf d v(2) c2]
    by simp
qed

section \<open>Two callers, one slot\<close>

text \<open>
  The three steps of one request in a row are the booking handler, and two requests one
  after the other are two runs of it.
\<close>

lemma book_steps_are_book:
  "book_steps fails pName pEmail dId t s =
     (BookDone (fst (book_appointment fails pName pEmail dId t s)),
      snd (book_appointment fails pName pEmail dId t s))"
  by (simp add: book_steps_def book_appointment_def Let_def split: option.splits)

lemma book_two_sequential:
  "book_two fA nA eA fB nB eB dId t
     [CallerA, CallerA, CallerA, CallerB, CallerB, CallerB] (BookStart, BookStart, s) =
   (BookDone (fst (book_appointment fA nA eA dId t s)),
    BookDone (fst (book_appointment fB nB eB dId t (snd (book_appointment fA nA eA dId t s)))),
    snd (book_appointment fB nB eB dId t (snd (book_appointment fA nA eA dId t s))))"
proof -
  have a: "book_two fA nA eA fB nB eB dId t [CallerA, CallerA, CallerA] (BookStart, pb, x) =
      (fst (book_steps fA nA eA dId t x), pb, snd (book_steps fA nA eA dId t x))" for pb x
    by (simp add: book_steps_def split: prod.splits)
  have b: "book_two fA nA eA fB nB eB dId t [CallerB, CallerB, CallerB] (pa, BookStart, x) =
      (pa, fst (book_steps fB nB eB dId t x), snd (book_steps fB nB eB dId t x))" for pa x
    by (simp add: book_steps_def split: prod.splits)
  have app: "book_two fA nA eA fB nB eB dId t (xs @ ys) c =
      book_two fA nA eA fB nB eB dId t ys (book_two fA nA eA fB nB eB dId t xs c)" for xs ys c
  proof (induction xs arbitrary: c)
    case Nil
    then show ?case by simp
  next
    case (Cons x xs)
    obtain pa pb u where c: "c = (pa, pb, u)" by (cases c)
    show ?case unfolding c by (cases x) (simp_all add: Cons.IH split: prod.splits)
  qed
  have "book_two fA nA eA fB nB eB dId t
     ([CallerA, CallerA, CallerA] @ [CallerB, CallerB, CallerB]) (BookStart, BookStart, s) =
   (BookDone (fst (book_appointment fA nA eA dId t s)),
    BookDone (fst (book_appointment fB nB eB dId t (snd (book_appointment fA nA eA dId t s)))),
    snd (book_appointment fB nB eB dId t (snd (book_appointment fA nA eA dId t s))))"
    unfolding app a b by (simp add: book_steps_are_book)
  then show ?thesis by simp
qed

lemma shuffles_three:
  "sch \<in> shuffles [CallerA, CallerA, CallerA] [CallerB, CallerB, CallerB] \<longleftrightarrow>
   sch \<in> set [
     [CallerA, CallerA, CallerA, CallerB, CallerB, CallerB],
     [CallerA, CallerA, CallerB, CallerA, CallerB, CallerB],
     [CallerA, CallerA, CallerB, CallerB, CallerA, CallerB],
     [CallerA, CallerA, CallerB, CallerB, CallerB, CallerA],
     [CallerA, CallerB, CallerA, CallerA, CallerB, CallerB],
     [CallerA, CallerB, CallerA, CallerB, CallerA, CallerB],
     [CallerA, CallerB, CallerA, CallerB, CallerB, CallerA],
     [CallerA, CallerB, CallerB, CallerA, CallerA, CallerB],
     [CallerA, CallerB, CallerB, CallerA, CallerB, CallerA],
     [CallerA, CallerB, CallerB, CallerB, CallerA, CallerA],
     [CallerB, CallerA, CallerA, CallerA, CallerB, CallerB],
     [CallerB, CallerA, CallerA, CallerB, CallerA, CallerB],
     [CallerB, CallerA, CallerA, CallerB, CallerB, CallerA],
     [CallerB, CallerA, CallerB, CallerA, CallerA, CallerB],
     [CallerB, CallerA, CallerB, CallerA, CallerB, CallerA],
     [CallerB, CallerA, CallerB, CallerB, CallerA, CallerA],
     [CallerB, CallerB, CallerA, CallerA, CallerA, CallerB],
     [CallerB, CallerB, CallerA, CallerA, CallerB, CallerA],
     [CallerB, CallerB, CallerA, CallerB, CallerA, CallerA],
     [CallerB, CallerB, CallerB, CallerA, CallerA, CallerA]]"
  by (auto simp: image_iff)

text \<open>
  C4, as the code has it. Two callers book the same doctor and time, on a slot that is
  offered; the lookups of the doctor and the saves of the appointments succeed, and a save
  of the doctor may be refused (as it is when the database layer finds the document changed
  since it was read). Over all interleavings of the two requests' three steps: when one
  request has saved the doctor before the other looks the doctor up, exactly one succeeds
  with a created appointment and the other receives "Slot not available"; in every other
  case both appointments are created for the one slot and neither caller receives
  "Slot not available": each is answered with success, or with "Error booking appointment"
  when its save of the doctor is refused.
\<close>

theorem two_callers_one_slot:
  assumes off: "isoTime t \<in> set (getAvailability s dId (isoDate t))" and v: "validDate t"
    and fa: "\<not> fA FindDoctor" "\<not> fA SaveAppointment"
    and fb: "\<not> fB FindDoctor" "\<not> fB SaveAppointment"
    and sch: "sch \<in> shuffles [CallerA, CallerA, CallerA] [CallerB, CallerB, CallerB]"
  shows
   "(sch = [CallerA, CallerA, CallerA, CallerB, CallerB, CallerB] \<and> \<not> fA SaveDoctor \<longrightarrow>
       fst (book_two fA nA eA fB nB eB dId t sch (BookStart, BookStart, s))
         = BookDone AppointmentBooked
     \<and> fst (snd (book_two fA nA eA fB nB eB dId t sch (BookStart, BookStart, s)))
         = BookDone SlotNotAvailable
     \<and> appointments (snd (snd (book_two fA nA eA fB nB eB dId t sch (BookStart, BookStart, s))))
         = appointments s @
            [\<lparr>patientName = nA, patientEmail = eA, doctorId = dId,
              appointmentTime = t, status = Scheduled\<rparr>])
  \<and> (sch = [CallerB, CallerB, CallerB, CallerA, CallerA, CallerA] \<and> \<not> fB SaveDoctor \<longrightarrow>
       fst (book_two fA nA eA fB nB eB dId t sch (BookStart, BookStart, s))
         = BookDone SlotNotAvailable
     \<and> fst (snd (book_two fA nA eA fB nB eB dId t sch (BookStart, BookStart, s)))
         = BookDone AppointmentBooked
     \<and> appointments (snd (snd (book_two fA nA eA fB nB eB dId t sch (BookStart, BookStart, s))))
         = appointments s @
            [\<lparr>patientName = nB, patientEmail = eB, doctorId = dId,
              appointmentTime = t, status = Scheduled\<rparr>])
  \<and> (\<not> (sch = [CallerA, CallerA, CallerA, CallerB, CallerB, CallerB] \<and> \<not> fA SaveDoctor)
     \<and> \<not> (sch = [CallerB, CallerB, CallerB, CallerA, CallerA, CallerA] \<and> \<not> fB SaveDoctor) \<longrightarrow>
       fst (book_two fA nA eA fB nB eB dId t sch (BookStart, BookStart, s))
         = BookDone (if fA SaveDoctor then ErrorBooking else AppointmentBooked)
     \<and> fst (snd (book_two fA nA eA fB nB eB dId t sch (BookStart, BookStart, s)))
         = BookDone (if fB SaveDoctor then ErrorBooking else AppointmentBooked)
     \<and> (appointments (snd (snd (book_two fA nA eA fB nB eB dId t sch (BookStart, BookStart, s))))
           = appointments s @
              [\<lparr>patientName = nA, patientEmail = eA, doctorId = dId,
                appointmentTime = t, status = Scheduled\<rparr>,
               \<lparr>patientName = nB, patientEmail = eB, doctorId = dId,
                appointmentTime = t, status = Scheduled\<rparr>]
        \<or> appointments (snd (snd (book_two fA nA eA fB nB eB dId t sch (BookStart, BookStart, s))))
           = appointments s @
              [\<lparr>patientName = nB, patientEmail = eB, doctorId = dId,
                appointmentTime = t, status = Scheduled\<rparr>,
               \<lparr>patientName = nA, patientEmail = eA, doctorId = dId,
                appointmentTime = t, status = Scheduled\<rparr>]))"
proof -
  from off obtain doc i where doc: "doctors s dId = Some doc"
    and i: "findIndex (\<lambda>e. isoDate (date e) = isoDate t) (schedule doc) = Some i"
    and il: "i < length (schedule doc)"
    and mem: "isoTime t \<in> set (availableSlots (schedule doc ! i))"
    by (rule offered_entry)
  have same: "findIndex (\<lambda>e. isoDate (date e) = isoDate t)
      ((schedule doc)[i := (schedule doc ! i)
        \<lparr>availableSlots := filter (\<lambda>slot. slot \<noteq> isoTime t)
            (availableSlots (schedule doc ! i))\<rparr>]) = Some i"
    using findIndex_update [OF il, of "\<lambda>e. isoDate (date e) = isoDate t"
        "(schedule doc ! i)\<lparr>availableSlots := filter (\<lambda>slot. slot \<noteq> isoTime t)
            (availableSlots (schedule doc ! i))\<rparr>"] i
    by simp
  from sch have "sch \<in> set [
     [CallerA, CallerA, CallerA, CallerB, CallerB, CallerB],
     [CallerA, CallerA, CallerB, CallerA, CallerB, CallerB],
     [CallerA, CallerA, CallerB, CallerB, CallerA, CallerB],
     [CallerA, CallerA, CallerB, CallerB, CallerB, CallerA],
     [CallerA, CallerB, CallerA, CallerA, CallerB, CallerB],
     [CallerA, CallerB, CallerA, CallerB, CallerA, CallerB],
     [CallerA, CallerB, CallerA, CallerB, CallerB, CallerA],
     [CallerA, CallerB, CallerB, CallerA, CallerA, CallerB],
     [CallerA, CallerB, CallerB, CallerA, CallerB, CallerA],
     [CallerA, CallerB, CallerB, CallerB, CallerA, CallerA],
     [CallerB, CallerA, CallerA, CallerA, CallerB, CallerB],
     [CallerB, CallerA, CallerA, CallerB, CallerA, CallerB],
     [CallerB, CallerA, CallerA, CallerB, CallerB, CallerA],
     [CallerB, CallerA, CallerB, CallerA, CallerA, CallerB],
     [CallerB, CallerA, CallerB, CallerA, CallerB, CallerA],
     [CallerB, CallerA, CallerB, CallerB, CallerA, CallerA],
     [CallerB, CallerB, CallerA, CallerA, CallerA, CallerB],
     [CallerB, CallerB, CallerA, CallerA, CallerB, CallerA],
     [CallerB, CallerB, CallerA, CallerB, CallerA, CallerA],
     [CallerB, CallerB, CallerB, CallerA, CallerA, CallerA]]"
    by (simp only: shuffles_three)
  then show ?thesis
    using doc il mem same v fa fb
    apply (simp only: list.set)
    apply (elim insertE emptyE)
    apply (simp_all add: i del: shuffles.simps)
    done
qed

theorem two_callers_one_slot_witness:
  "fst (book_two noFault ''Alice'' ''a@x.com'' noFault ''Bob'' ''b@x.com'' ''D1'' 1717236000000
     [CallerA, CallerA, CallerA, CallerB, CallerB, CallerB] (BookStart, BookStart, exStore))
     = BookDone AppointmentBooked
   \<and> fst (snd (book_two noFault ''Alice'' ''a@x.com'' noFault ''Bob'' ''b@x.com'' ''D1''
       1717236000000
       [CallerA, CallerA, CallerA, CallerB, CallerB, CallerB] (BookStart, BookStart, exStore)))
     = BookDone SlotNotAvailable
   \<and> fst (book_two noFault ''Alice'' ''a@x.com'' noFault ''Bob'' ''b@x.com'' ''D1'' 1717236000000
     [CallerA, CallerA, CallerB, CallerA, CallerB, CallerB] (BookStart, BookStart, exStore))
     = BookDone AppointmentBooked
   \<and> fst (snd (book_two noFault ''Alice'' ''a@x.com'' noFault ''Bob'' ''b@x.com'' ''D1''
       1717236000000
       [CallerA, CallerA, CallerB, CallerA, CallerB, CallerB] (BookStart, BookStart, exStore)))
     = BookDone AppointmentBooked"
proof -
  have off: "isoTime 1717236000000
      \<in> set (getAvailability exStore ''D1'' (isoDate 1717236000000))"
    by (simp add: avail_defs ex_defs time_defs)
  have v: "validDate 1717236000000" by (simp add: validDate_def)
  have nf: "\<not> noFault FindDoctor" "\<not> noFault SaveAppointment" "\<not> noFault SaveDoctor"
    by (simp_all add: noFault_def)
  have s1: "[CallerA, CallerA, CallerA, CallerB, CallerB, CallerB]
      \<in> shuffles [CallerA, CallerA, CallerA] [CallerB, CallerB, CallerB]"
    by (simp add: shuffles_three)
  have s2: "[CallerA, CallerA, CallerB, CallerA, CallerB, CallerB]
      \<in> shuffles [CallerA, CallerA, CallerA] [CallerB, CallerB, CallerB]"
    by (simp add: shuffles_three)
  note t1 = two_callers_one_slot [OF off v nf(1,2) nf(1,2) s1,
      where nA = "''Alice''" and eA = "''a@x.com''" and nB = "''Bob''" and eB = "''b@x.com''"]
  note t2 = two_callers_one_slot [OF off v nf(1,2) nf(1,2) s2,
      where nA = "''Alice''" and eA = "''a@x.com''" and nB = "''Bob''" and eB = "''b@x.com''"]
  from t1 nf(3) have a: "fst (book_two noFault ''Alice'' ''a@x.com'' noFault ''Bob'' ''b@x.com''
      ''D1'' 1717236000000
      [CallerA, CallerA, CallerA, CallerB, CallerB, CallerB] (BookStart, BookStart, exStore))
      = BookDone AppointmentBooked
    \<and> fst (snd (book_two noFault ''Alice'' ''a@x.com'' noFault ''Bob'' ''b@x.com'' ''D1''
       1717236000000
       [CallerA, CallerA, CallerA, CallerB, CallerB, CallerB] (BookStart, BookStart, exStore)))
      = BookDone SlotNotAvailable"
    by blast
  have ne: "[CallerA, CallerA, CallerB, CallerA, CallerB, CallerB]
      \<noteq> [CallerA, CallerA, CallerA, CallerB, CallerB, CallerB]"
    "[CallerA, CallerA, CallerB, CallerA, CallerB, CallerB]
      \<noteq> [CallerB, CallerB, CallerB, CallerA, CallerA, CallerA]"
    by simp_all
  from t2 ne nf(3) have b: "fst (book_two noFault ''Alice'' ''a@x.com'' noFault ''Bob''
      ''b@x.com'' ''D1'' 1717236000000
      [CallerA, CallerA, CallerB, CallerA, CallerB, CallerB] (BookStart, BookStart, exStore))
      = BookDone AppointmentBooked
    \<and> fst (snd (book_two noFault ''Alice'' ''a@x.com'' noFault ''Bob'' ''b@x.com'' ''D1''
       1717236000000
       [CallerA, CallerA, CallerB, CallerA, CallerB, CallerB] (BookStart, BookStart, exStore)))
      = BookDone AppointmentBooked"
    by (simp del: book_two.simps shuffles.simps)
  from a b show ?thesis by blast
qed

text \<open>
  C4 fails as stated: both callers look the doctor up before either has written. Both
  appointments are stored for 10:00; both callers are answered with success, or, when the
  second save of the doctor is refused, the second with "Error booking appointment". There
  is no conditional update in the handler.
\<close>

theorem concurrent_booking_counterexample:
  "book_two noFault ''Alice'' ''a@x.com'' noFault ''Bob'' ''b@x.com'' ''D1'' 1717236000000
     [CallerA, CallerB, CallerA, CallerB, CallerA, CallerB] (BookStart, BookStart, exStore)
   = (BookDone AppointmentBooked, BookDone AppointmentBooked,
      \<lparr>appointments = [exAppt 1717236000000 Scheduled,
         (exAppt 1717236000000 Scheduled)\<lparr>patientName := ''Bob'', patientEmail := ''b@x.com''\<rparr>],
       doctors = [''D1'' \<mapsto> exDoctor\<lparr>schedule :=
         [\<lparr>date = 1717200000000, availableSlots = [''11:00'']\<rparr>]\<rparr>]\<rparr>)
   \<and> book_two noFault ''Alice'' ''a@x.com'' (onlyFails SaveDoctor) ''Bob'' ''b@x.com'' ''D1''
       1717236000000
       [CallerA, CallerB, CallerA, CallerB, CallerA, CallerB] (BookStart, BookStart, exStore)
   = (BookDone AppointmentBooked, BookDone ErrorBooking,
      \<lparr>appointments = [exAppt 1717236000000 Scheduled,
         (exAppt 1717236000000 Scheduled)\<lparr>patientName := ''Bob'', patientEmail := ''b@x.com''\<rparr>],
       doctors = [''D1'' \<mapsto> exDoctor\<lparr>schedule :=
         [\<lparr>date = 1717200000000, availableSlots = [''11:00'']\<rparr>]\<rparr>]\<rparr>)"
  by (simp add: ex_defs time_defs)

section \<open>The disjointness of offered and held slots\<close>

lemma consistent_shrink:
  assumes "slotsConsistent s"
    and "\<And>d day. set (getAvailability s' d day) \<subseteq> set (getAvailability s d day)"
    and "\<And>a. a \<in> set (appointments s') \<Longrightarrow> active a \<Longrightarrow>
           a \<in> set (appointments s) \<or>
           isoTime (appointmentTime a) \<notin> set (getAvailability s' (doctorId a) (isoDate (appointmentTime a)))"
  shows "slotsConsistent s'"
  using assms unfolding slotsConsistent_def list_all_iff by blast

lemma book_preserves_consistent:
  assumes "slotsConsistent s" "\<not> fails SaveDoctor"
  shows "slotsConsistent (snd (book_appointment fails pName pEmail dId t s))"
proof (cases "fst (book_appointment fails pName pEmail dId t s) = AppointmentBooked")
  case False
  then have "snd (book_appointment fails pName pEmail dId t s) = s"
    using assms(2) by (auto simp: book_appointment_def Let_def split: option.splits if_splits)
  then show ?thesis using assms(1) by simp
next
  case True
  then obtain doc i where doc: "doctors s dId = Some doc"
    and i: "findIndex (\<lambda>day. isoDate (date day) = isoDate t) (schedule doc) = Some i"
    and s': "snd (book_appointment fails pName pEmail dId t s) =
       s\<lparr>appointments := appointments s @
           [\<lparr>patientName = pName, patientEmail = pEmail, doctorId = dId,
             appointmentTime = t, status = Scheduled\<rparr>],
         doctors := (doctors s)(dId \<mapsto> doc\<lparr>schedule := (schedule doc)[i := (schedule doc ! i)
              \<lparr>availableSlots := filter (\<lambda>slot. slot \<noteq> isoTime t)
                  (availableSlots (schedule doc ! i))\<rparr>]\<rparr>)\<rparr>"
    by (auto simp: book_appointment_def Let_def split: option.splits if_splits)
  from i have il: "i < length (schedule doc)" by (simp add: findIndex_Some)
  let ?s' = "snd (book_appointment fails pName pEmail dId t s)"
  have av: "getAvailability ?s' d day =
      (if d = dId \<and> findIndex (\<lambda>e. isoDate (date e) = day) (schedule doc) = Some i
       then filter (\<lambda>slot. slot \<noteq> isoTime t) (availableSlots (schedule doc ! i))
       else getAvailability s d day)" for d day
    using getAvailability_update [OF doc il, of "filter (\<lambda>slot. slot \<noteq> isoTime t) (availableSlots (schedule doc ! i))" d day]
    by (simp add: s' getAvailability_def)
  have apps: "appointments ?s' = appointments s @
           [\<lparr>patientName = pName, patientEmail = pEmail, doctorId = dId,
             appointmentTime = t, status = Scheduled\<rparr>]"
    by (simp add: s')
  have old: "findIndex (\<lambda>e. isoDate (date e) = day) (schedule doc) = Some i \<Longrightarrow>
      getAvailability s dId day = availableSlots (schedule doc ! i)" for day
    using doc by (simp add: getAvailability_def slotsOn_def)
  show ?thesis
  proof (rule consistent_shrink [OF assms(1)])
    fix d day
    show "set (getAvailability ?s' d day) \<subseteq> set (getAvailability s d day)"
      by (auto simp: av old)
  next
    fix a assume "a \<in> set (appointments ?s')" "active a"
    then have "a \<in> set (appointments s) \<or> (doctorId a = dId \<and> appointmentTime a = t)"
      by (auto simp: apps)
    then show "a \<in> set (appointments s) \<or>
           isoTime (appointmentTime a) \<notin> set (getAvailability ?s' (doctorId a) (isoDate (appointmentTime a)))"
      using i by (auto simp: av)
  qed
qed

section \<open>Reschedule: what a run writes\<close>

lemma slot_iso:
  assumes "h < 24" "m < 60"
  shows "isoDate (d * 86400000 + int h * 3600000 + int m * 60000) = d"
    and "isoTime (d * 86400000 + int h * 3600000 + int m * 60000) = hhmm h m"
proof -
  define x where "x = int h * 3600000 + int m * 60000"
  have x: "0 \<le> x" "x < 86400000" using assms by (simp_all add: x_def)
  have e: "d * 86400000 + int h * 3600000 + int m * 60000 = x + d * 86400000"
    by (simp add: x_def)
  have dv: "(x + d * 86400000) div 86400000 = d" using x by simp
  have md: "(x + d * 86400000) mod 86400000 = x" using x by simp
  have hh: "x div 3600000 = int h"
  proof -
    have "x = int m * 60000 + int h * 3600000" by (simp add: x_def)
    moreover have "int m * 60000 < 3600000" using assms by simp
    ultimately show ?thesis by simp
  qed
  have mm: "x div 60000 mod 60 = int m"
  proof -
    have "x = (int h * 60 + int m) * 60000" by (simp add: x_def algebra_simps)
    then have "x div 60000 = int m + int h * 60" by simp
    then show ?thesis using assms by simp
  qed
  show "isoDate (d * 86400000 + int h * 3600000 + int m * 60000) = d"
    unfolding e isoDate_def by (rule dv)
  show "isoTime (d * 86400000 + int h * 3600000 + int m * 60000) = hhmm h m"
    unfolding e isoTime_def md hh mm by simp
qed

lemma sum_list_map_update:
  fixes f :: "'a \<Rightarrow> nat"
  shows "i < length xs \<Longrightarrow>
    sum_list (map f (xs[i := y])) + f (xs ! i) = sum_list (map f xs) + f y"
proof (induction xs arbitrary: i)
  case Nil
  then show ?case by simp
next
  case (Cons x xs)
  then show ?case by (cases i) (auto simp: add.assoc add.left_commute)
qed

lemma filter_absent: "v \<notin> set xs \<Longrightarrow> filter (\<lambda>x. x \<noteq> v) xs = xs"
  by (induction xs) auto

lemma length_filter_distinct:
  "distinct xs \<Longrightarrow> v \<in> set xs \<Longrightarrow> Suc (length (filter (\<lambda>x. x \<noteq> v) xs)) = length xs"
  by (induction xs) (auto simp: filter_absent)

lemma reschedule_guard_passed:
  "snd (reschedule fails tz appointmentId dId ns s) \<noteq> s \<Longrightarrow>
   reschedule fails tz appointmentId dId ns s = reschedule_handler fails tz appointmentId ns s"
  by (auto simp: reschedule_def split: option.splits)

lemma reschedule_handler_written:
  assumes "snd (reschedule_handler fails tz appointmentId ns s) \<noteq> s
    \<or> fst (reschedule_handler fails tz appointmentId ns s) = RescheduledNotified"
  obtains doc slotIndex ts where
    "appointmentId < length (appointments s)"
    "doctors s (doctorId (appointments s ! appointmentId)) = Some doc"
    "findIndex (\<lambda>day. toDateString tz (date day) = toDateString tz (slotDay ns))
       (schedule doc) = Some slotIndex"
    "slotTime ns \<in> set (availableSlots (schedule doc ! slotIndex))"
    "slotInstant tz ns = Some ts"
    "appointments (snd (reschedule_handler fails tz appointmentId ns s)) =
       (appointments s)[appointmentId := (appointments s ! appointmentId)
          \<lparr>status := Rescheduled, appointmentTime := ts\<rparr>]"
    "doctors (snd (reschedule_handler fails tz appointmentId ns s)) =
       (if fails SaveDoctor then doctors s
        else (doctors s)(doctorId (appointments s ! appointmentId) \<mapsto> doc\<lparr>schedule :=
          (schedule doc)[slotIndex := (schedule doc ! slotIndex)
             \<lparr>availableSlots := filter (\<lambda>slot. slot \<noteq> slotTime ns)
                 (availableSlots (schedule doc ! slotIndex))\<rparr>]\<rparr>))"
    "fst (reschedule_handler fails tz appointmentId ns s) =
       (if fails SaveDoctor then ErrorRescheduling
        else if fails SendMail then ErrorNotifying else RescheduledNotified)"
  using assms
  by (auto simp: reschedule_handler_def Let_def split: option.splits if_splits)

lemma localAvailability_appointments [simp]:
  "localAvailability tz (s\<lparr>appointments := as\<rparr>) dId ns = localAvailability tz s dId ns"
  by (simp add: localAvailability_def)

lemma slotCount_appointments [simp]:
  "slotCount (s\<lparr>appointments := as\<rparr>) dId = slotCount s dId"
  by (simp add: slotCount_def)

text \<open>What a reschedule that wrote the doctor has done to the schedules.\<close>

lemma reschedule_written_doctor:
  assumes w: "snd (reschedule_handler fails tz appointmentId ns s) \<noteq> s
      \<or> fst (reschedule_handler fails tz appointmentId ns s) = RescheduledNotified"
    and nf: "\<not> fails SaveDoctor"
  obtains doc i ts where
    "appointmentId < length (appointments s)"
    "doctors s (doctorId (appointments s ! appointmentId)) = Some doc"
    "i < length (schedule doc)"
    "findIndex (\<lambda>day. toDateString tz (date day) = toDateString tz (slotDay ns))
       (schedule doc) = Some i"
    "slotTime ns \<in> set (availableSlots (schedule doc ! i))"
    "slotInstant tz ns = Some ts"
    "appointments (snd (reschedule_handler fails tz appointmentId ns s)) =
       (appointments s)[appointmentId := (appointments s ! appointmentId)
          \<lparr>status := Rescheduled, appointmentTime := ts\<rparr>]"
    "\<And>d day. getAvailability (snd (reschedule_handler fails tz appointmentId ns s)) d day =
       (if d = doctorId (appointments s ! appointmentId)
           \<and> findIndex (\<lambda>e. isoDate (date e) = day) (schedule doc) = Some i
        then filter (\<lambda>slot. slot \<noteq> slotTime ns) (availableSlots (schedule doc ! i))
        else getAvailability s d day)"
    "localAvailability tz (snd (reschedule_handler fails tz appointmentId ns s))
        (doctorId (appointments s ! appointmentId)) ns =
       filter (\<lambda>slot. slot \<noteq> slotTime ns) (availableSlots (schedule doc ! i))"
    "localAvailability tz s (doctorId (appointments s ! appointmentId)) ns =
       availableSlots (schedule doc ! i)"
    "slotCount (snd (reschedule_handler fails tz appointmentId ns s))
        (doctorId (appointments s ! appointmentId))
       + length (availableSlots (schedule doc ! i)) =
     slotCount s (doctorId (appointments s ! appointmentId))
       + length (filter (\<lambda>slot. slot \<noteq> slotTime ns) (availableSlots (schedule doc ! i)))"
proof -
  let ?s' = "snd (reschedule_handler fails tz appointmentId ns s)"
  let ?D = "doctorId (appointments s ! appointmentId)"
  from w obtain doc i ts where
    len: "appointmentId < length (appointments s)"
    and doc: "doctors s ?D = Some doc"
    and i: "findIndex (\<lambda>day. toDateString tz (date day) = toDateString tz (slotDay ns))
       (schedule doc) = Some i"
    and mem: "slotTime ns \<in> set (availableSlots (schedule doc ! i))"
    and ts: "slotInstant tz ns = Some ts"
    and apps: "appointments ?s' = (appointments s)[appointmentId := (appointments s ! appointmentId)
          \<lparr>status := Rescheduled, appointmentTime := ts\<rparr>]"
    and docs0: "doctors ?s' =
       (if fails SaveDoctor then doctors s
        else (doctors s)(?D \<mapsto> doc\<lparr>schedule :=
          (schedule doc)[i := (schedule doc ! i)
             \<lparr>availableSlots := filter (\<lambda>slot. slot \<noteq> slotTime ns)
                 (availableSlots (schedule doc ! i))\<rparr>]\<rparr>))"
    by (rule reschedule_handler_written)
  let ?ys = "filter (\<lambda>slot. slot \<noteq> slotTime ns) (availableSlots (schedule doc ! i))"
  let ?sched = "(schedule doc)[i := (schedule doc ! i)\<lparr>availableSlots := ?ys\<rparr>]"
  from docs0 nf have docs: "doctors ?s' = (doctors s)(?D \<mapsto> doc\<lparr>schedule := ?sched\<rparr>)"
    by simp
  from i have il: "i < length (schedule doc)" by (simp add: findIndex_Some)
  have av: "getAvailability ?s' d day =
       (if d = ?D \<and> findIndex (\<lambda>e. isoDate (date e) = day) (schedule doc) = Some i
        then ?ys else getAvailability s d day)" for d day
    using il doc by (simp add: getAvailability_def docs slotsOn_update)
  have same: "findIndex (\<lambda>day. toDateString tz (date day) = toDateString tz (slotDay ns)) ?sched
      = Some i"
    using findIndex_update [OF il, of "\<lambda>day. toDateString tz (date day) = toDateString tz (slotDay ns)"
        "(schedule doc ! i)\<lparr>availableSlots := ?ys\<rparr>"] i
    by simp
  have la': "localAvailability tz ?s' ?D ns = ?ys"
    using il by (simp add: localAvailability_def docs same)
  have la: "localAvailability tz s ?D ns = availableSlots (schedule doc ! i)"
    by (simp add: localAvailability_def doc i)
  have cnt: "slotCount ?s' ?D + length (availableSlots (schedule doc ! i)) =
     slotCount s ?D + length ?ys"
    using sum_list_map_update [OF il, of "\<lambda>e. length (availableSlots e)"
        "(schedule doc ! i)\<lparr>availableSlots := ?ys\<rparr>"]
    by (simp add: slotCount_def docs doc)
  show ?thesis
    using that [OF len doc il i mem ts apps av la' la cnt] .
qed

lemma reschedule_success_handler:
  "fst (reschedule fails tz appointmentId dId ns s) = RescheduledNotified \<Longrightarrow>
   reschedule fails tz appointmentId dId ns s = reschedule_handler fails tz appointmentId ns s"
  by (auto simp: reschedule_def preventDoubleBooking_def split: option.splits if_splits)

lemma reschedule_success_saved:
  "fst (reschedule_handler fails tz appointmentId ns s) = RescheduledNotified \<Longrightarrow>
   \<not> fails SaveDoctor"
  by (auto simp: reschedule_handler_def Let_def split: option.splits if_splits)

lemma book_no_error:
  "fails SaveDoctor \<Longrightarrow> fst (book_appointment fails pName pEmail dId t s) \<noteq> ErrorBooking \<Longrightarrow>
   snd (book_appointment fails pName pEmail dId t s) = s"
  by (auto simp: book_appointment_def Let_def split: option.splits if_splits)

lemma reschedule_no_error:
  "fails SaveDoctor \<Longrightarrow> fst (reschedule fails tz appointmentId dId ns s) \<noteq> ErrorRescheduling \<Longrightarrow>
   snd (reschedule fails tz appointmentId dId ns s) = s"
  by (auto simp: reschedule_def reschedule_handler_def Let_def split: option.splits if_splits)

lemma sweep_preserves_consistent:
  assumes "slotsConsistent s"
  shows "slotsConsistent (checkMissedAppointments now s)"
proof (rule consistent_shrink [OF assms])
  fix d day
  show "set (getAvailability (checkMissedAppointments now s) d day)
      \<subseteq> set (getAvailability s d day)"
    by (simp add: getAvailability_cong [OF sweep_doctors])
next
  fix a
  assume a: "a \<in> set (appointments (checkMissedAppointments now s))" "active a"
  then obtain b where b: "b \<in> set (appointments s)"
      "a = (if isStale now b then b\<lparr>status := Missed\<rparr> else b)"
    by (auto simp: checkMissedAppointments_def)
  with a(2) have "a = b" by (auto simp: active_def split: if_splits)
  with b(1) show "a \<in> set (appointments s) \<or>
      isoTime (appointmentTime a)
        \<notin> set (getAvailability (checkMissedAppointments now s) (doctorId a)
              (isoDate (appointmentTime a)))"
    by simp
qed

lemma toDateString_utc:
  "toDateString 0 t = isoDate t" "isoDate (slotDay ns) = slotDate ns"
  by (simp_all add: toDateString_def isoDate_def slotDay_def)

lemma reschedule_preserves_consistent:
  assumes c: "slotsConsistent s" and nf: "\<not> fails SaveDoctor"
    and h: "slotHour ns < 24" and m: "slotMinute ns < 60"
  shows "slotsConsistent (snd (reschedule fails 0 appointmentId dId ns s))"
proof (cases "snd (reschedule fails 0 appointmentId dId ns s) = s")
  case True
  then show ?thesis using c by simp
next
  case False
  then have eq: "reschedule fails 0 appointmentId dId ns s
      = reschedule_handler fails 0 appointmentId ns s"
    by (rule reschedule_guard_passed)
  let ?s' = "snd (reschedule_handler fails 0 appointmentId ns s)"
  let ?D = "doctorId (appointments s ! appointmentId)"
  from False eq have w: "?s' \<noteq> s
      \<or> fst (reschedule_handler fails 0 appointmentId ns s) = RescheduledNotified" by simp
  have "slotsConsistent ?s'"
  proof (rule reschedule_written_doctor [OF w nf])
    fix doc i ts
    assume doc: "doctors s ?D = Some doc"
      and i: "findIndex (\<lambda>day. toDateString 0 (date day) = toDateString 0 (slotDay ns))
         (schedule doc) = Some i"
      and ts: "slotInstant 0 ns = Some ts"
      and apps: "appointments ?s' = (appointments s)[appointmentId :=
          (appointments s ! appointmentId)\<lparr>status := Rescheduled, appointmentTime := ts\<rparr>]"
      and av: "\<And>d day. getAvailability ?s' d day =
         (if d = ?D \<and> findIndex (\<lambda>e. isoDate (date e) = day) (schedule doc) = Some i
          then filter (\<lambda>slot. slot \<noteq> slotTime ns) (availableSlots (schedule doc ! i))
          else getAvailability s d day)"
    from i have i': "findIndex (\<lambda>e. isoDate (date e) = slotDate ns) (schedule doc) = Some i"
      by (simp add: toDateString_utc)
    from ts h m have tsv: "ts = slotDate ns * 86400000 + int (slotHour ns) * 3600000
        + int (slotMinute ns) * 60000"
      by (simp add: slotInstant_def)
    have day: "isoDate ts = slotDate ns" unfolding tsv using h m by (rule slot_iso)
    have tod: "isoTime ts = slotTime ns" unfolding tsv slotTime_def using h m by (rule slot_iso)
    have old: "findIndex (\<lambda>e. isoDate (date e) = day) (schedule doc) = Some i \<Longrightarrow>
        getAvailability s ?D day = availableSlots (schedule doc ! i)" for day
      using doc by (simp add: getAvailability_def slotsOn_def)
    show "slotsConsistent ?s'"
    proof (rule consistent_shrink [OF c])
      fix d day
      show "set (getAvailability ?s' d day) \<subseteq> set (getAvailability s d day)"
        by (auto simp: av old)
    next
      fix a assume "a \<in> set (appointments ?s')" "active a"
      then have "a \<in> set (appointments s) \<or> (doctorId a = ?D \<and> appointmentTime a = ts)"
        using set_update_subset_insert [of "appointments s" appointmentId
            "(appointments s ! appointmentId)\<lparr>status := Rescheduled, appointmentTime := ts\<rparr>"]
        by (auto simp: apps)
      moreover have "slotTime ns \<notin> set (getAvailability ?s' ?D (slotDate ns))"
        using i' by (simp add: av)
      ultimately show "a \<in> set (appointments s) \<or>
          isoTime (appointmentTime a)
            \<notin> set (getAvailability ?s' (doctorId a) (isoDate (appointmentTime a)))"
        using day tod by auto
    qed
  qed
  then show ?thesis by (simp add: eq)
qed

section \<open>The example stores, evaluated\<close>

lemma exBooked_reached:
  "book_appointment noFault ''Alice'' ''a@x.com'' ''D1'' 1717236000000 exStore
     = (AppointmentBooked, exBooked)"
  by (simp add: op_defs ex_defs time_defs)

lemma exBooked_rescheduled:
  "reschedule noFault 0 0 ''D1'' elevenOClock exBooked =
     (RescheduledNotified,
      \<lparr>appointments = [exAppt 1717239600000 Rescheduled],
       doctors = [''D1'' \<mapsto> exDoctor\<lparr>schedule :=
         [\<lparr>date = 1717200000000, availableSlots = []\<rparr>]\<rparr>]\<rparr>)"
  by (simp add: op_defs ex_defs time_defs)

lemma exBooked_disjoint: "slotsDisjoint exBooked"
  by (simp add: slotsDisjoint_iff avail_defs ex_defs time_defs)

lemma exBooked_reopened:
  "update_slots noFault ''D1'' 1717200000000 [''10:00'', ''11:00''] exBooked =
     (SlotsUpdated, exBooked\<lparr>doctors := [''D1'' \<mapsto> exDoctor]\<rparr>)"
  by (simp add: op_defs ex_defs time_defs)

section \<open>Claims on the slot inventory\<close>

text \<open>
  C1, as the code has it. The slots a doctor offers on a day and the times held on that
  day by the doctor's active appointments stay disjoint under a run of the sweep, under
  every Book that does not answer "Error booking appointment", and under every Reschedule
  that does not answer "Error rescheduling appointment", when the server's local time is
  UTC and the new time is a time of day below 24:00. (The update of the slots is not among
  them: it overwrites the slots of the day with the list of the request.)
\<close>

theorem disjointness_preserved:
  assumes "slotsDisjoint s"
  shows "slotsDisjoint (checkMissedAppointments now s)
    \<and> (fst (book_appointment fails pName pEmail dId t s) \<noteq> ErrorBooking
        \<longrightarrow> slotsDisjoint (snd (book_appointment fails pName pEmail dId t s)))
    \<and> (fst (reschedule fails 0 appointmentId rId ns s) \<noteq> ErrorRescheduling
          \<and> slotHour ns < 24 \<and> slotMinute ns < 60
        \<longrightarrow> slotsDisjoint (snd (reschedule fails 0 appointmentId rId ns s)))"
proof (intro conjI impI)
  from assms have c: "slotsConsistent s" by (simp add: slotsDisjoint_iff)
  show "slotsDisjoint (checkMissedAppointments now s)"
    using sweep_preserves_consistent [OF c] by (simp add: slotsDisjoint_iff)
  show "slotsDisjoint (snd (book_appointment fails pName pEmail dId t s))"
    if "fst (book_appointment fails pName pEmail dId t s) \<noteq> ErrorBooking"
  proof (cases "fails SaveDoctor")
    case True
    then show ?thesis using book_no_error [where fails = fails, OF True that] assms by simp
  next
    case False
    then show ?thesis using book_preserves_consistent [where fails = fails, OF c False] by (simp add: slotsDisjoint_iff)
  qed
  show "slotsDisjoint (snd (reschedule fails 0 appointmentId rId ns s))"
    if r: "fst (reschedule fails 0 appointmentId rId ns s) \<noteq> ErrorRescheduling
          \<and> slotHour ns < 24 \<and> slotMinute ns < 60"
  proof (cases "fails SaveDoctor")
    case True
    then show ?thesis using reschedule_no_error [where fails = fails, OF True] r assms by simp
  next
    case False
    from r have "slotHour ns < 24" "slotMinute ns < 60" by simp_all
    then show ?thesis
      using reschedule_preserves_consistent [where fails = fails, OF c False] by (simp add: slotsDisjoint_iff)
  qed
qed

theorem disjointness_preserved_witness:
  "slotsDisjoint (checkMissedAppointments 1717240000000 exBooked)
   \<and> slotsDisjoint
       (snd (book_appointment noFault ''Bob'' ''b@x.com'' ''D1'' 1717239600000 exBooked))
   \<and> slotsDisjoint (snd (reschedule noFault 0 0 ''D1'' elevenOClock exBooked))"
proof -
  have b: "fst (book_appointment noFault ''Bob'' ''b@x.com'' ''D1'' 1717239600000 exBooked)
      \<noteq> ErrorBooking"
    by (simp add: op_defs ex_defs time_defs)
  have r: "fst (reschedule noFault 0 0 ''D1'' elevenOClock exBooked) \<noteq> ErrorRescheduling
      \<and> slotHour elevenOClock < 24 \<and> slotMinute elevenOClock < 60"
    by (simp add: exBooked_rescheduled) (simp add: elevenOClock_def)
  show ?thesis
    using disjointness_preserved [OF exBooked_disjoint, where now = 1717240000000
        and fails = noFault and pName = "''Bob''" and pEmail = "''b@x.com''" and dId = "''D1''"
        and t = 1717239600000 and appointmentId = 0 and rId = "''D1''" and ns = elevenOClock]
      b r
    by blast
qed

text \<open>
  C1 fails for the update of the slots: with Alice holding 10:00, the administrator sets the
  slots of that day to 10:00 and 11:00, and 10:00 is both offered and held.
\<close>

theorem update_slots_breaks_disjointness_counterexample:
  "slotsDisjoint exBooked
   \<and> fst (update_slots noFault ''D1'' 1717200000000 [''10:00'', ''11:00''] exBooked) = SlotsUpdated
   \<and> \<not> slotsDisjoint
         (snd (update_slots noFault ''D1'' 1717200000000 [''10:00'', ''11:00''] exBooked))"
  unfolding exBooked_reopened
  by (simp add: exBooked_disjoint) (simp add: slotsDisjoint_iff avail_defs ex_defs time_defs)

text \<open>
  The two conditions of the theorem are needed. When the save of the doctor fails after the
  appointment was saved, the appointment is stored and its slot is still offered. And on a
  server five hours behind UTC, a Reschedule to 11:00 takes 11:00 out of the schedule and
  puts the appointment at 16:00 UTC, which is still offered.
\<close>

lemma book_doctor_save_fails_example:
  "slotsDisjoint exStore
   \<and> book_appointment (onlyFails SaveDoctor) ''Alice'' ''a@x.com'' ''D1'' 1717236000000 exStore
       = (ErrorBooking, exStore\<lparr>appointments := [exAppt 1717236000000 Scheduled]\<rparr>)
   \<and> \<not> slotsDisjoint (exStore\<lparr>appointments := [exAppt 1717236000000 Scheduled]\<rparr>)"
  by (simp add: slotsDisjoint_iff avail_defs op_defs ex_defs time_defs)

lemma reschedule_local_time_example:
  "slotsDisjoint exAfternoon
   \<and> fst (reschedule noFault (- 18000000) 0 ''D1'' elevenOClock exAfternoon) = RescheduledNotified
   \<and> \<not> slotsDisjoint (snd (reschedule noFault (- 18000000) 0 ''D1'' elevenOClock exAfternoon))"
  by (simp add: slotsDisjoint_iff avail_defs op_defs ex_defs time_defs)

text \<open>
  C2, as the code has it. A successful Reschedule takes the new slot, which was offered,
  out of the schedule entry of the new date, and releases nothing: what any doctor offers
  on any day afterwards was already offered before (so the old slot, held before, is not
  offered again), and the number of slots the doctor offers goes down, by exactly one when
  the entry does not list a slot twice.
\<close>

theorem reschedule_takes_new_slot_only:
  assumes "fst (reschedule fails tz appointmentId rId ns s) = RescheduledNotified"
  shows "slotTime ns \<in> set (localAvailability tz s (doctorId (appointments s ! appointmentId)) ns)
    \<and> set (localAvailability tz (snd (reschedule fails tz appointmentId rId ns s))
            (doctorId (appointments s ! appointmentId)) ns)
        = set (localAvailability tz s (doctorId (appointments s ! appointmentId)) ns)
            - {slotTime ns}
    \<and> set (getAvailability (snd (reschedule fails tz appointmentId rId ns s)) d day)
        \<subseteq> set (getAvailability s d day)
    \<and> slotCount (snd (reschedule fails tz appointmentId rId ns s))
          (doctorId (appointments s ! appointmentId))
        < slotCount s (doctorId (appointments s ! appointmentId))
    \<and> (distinct (localAvailability tz s (doctorId (appointments s ! appointmentId)) ns)
        \<longrightarrow> Suc (slotCount (snd (reschedule fails tz appointmentId rId ns s))
                   (doctorId (appointments s ! appointmentId)))
            = slotCount s (doctorId (appointments s ! appointmentId)))"
proof -
  let ?s' = "snd (reschedule_handler fails tz appointmentId ns s)"
  let ?D = "doctorId (appointments s ! appointmentId)"
  have eq: "reschedule fails tz appointmentId rId ns s
      = reschedule_handler fails tz appointmentId ns s"
    using assms by (rule reschedule_success_handler)
  with assms have ok: "fst (reschedule_handler fails tz appointmentId ns s) = RescheduledNotified"
    by simp
  then have nf: "\<not> fails SaveDoctor" by (rule reschedule_success_saved)
  from ok have w: "?s' \<noteq> s
      \<or> fst (reschedule_handler fails tz appointmentId ns s) = RescheduledNotified" by simp
  have "slotTime ns \<in> set (localAvailability tz s ?D ns)
    \<and> set (localAvailability tz ?s' ?D ns) = set (localAvailability tz s ?D ns) - {slotTime ns}
    \<and> set (getAvailability ?s' d day) \<subseteq> set (getAvailability s d day)
    \<and> slotCount ?s' ?D < slotCount s ?D
    \<and> (distinct (localAvailability tz s ?D ns) \<longrightarrow> Suc (slotCount ?s' ?D) = slotCount s ?D)"
  proof (rule reschedule_written_doctor [OF w nf])
    fix doc :: doctor and i
    let ?xs = "availableSlots (schedule doc ! i)"
    let ?ys = "filter (\<lambda>slot. slot \<noteq> slotTime ns) ?xs"
    assume doc: "doctors s ?D = Some doc"
      and mem: "slotTime ns \<in> set ?xs"
      and av: "\<And>d day. getAvailability ?s' d day =
         (if d = ?D \<and> findIndex (\<lambda>e. isoDate (date e) = day) (schedule doc) = Some i
          then ?ys else getAvailability s d day)"
      and la': "localAvailability tz ?s' ?D ns = ?ys"
      and la: "localAvailability tz s ?D ns = ?xs"
      and cnt: "slotCount ?s' ?D + length ?xs = slotCount s ?D + length ?ys"
    have old: "findIndex (\<lambda>e. isoDate (date e) = day) (schedule doc) = Some i \<Longrightarrow>
        getAvailability s ?D day = ?xs" for day
      using doc by (simp add: getAvailability_def slotsOn_def)
    have less: "length ?ys < length ?xs"
      using mem by (simp add: length_filter_less)
    have one: "distinct ?xs \<Longrightarrow> Suc (length ?ys) = length ?xs"
      using mem by (simp add: length_filter_distinct)
    have c1: "slotTime ns \<in> set (localAvailability tz s ?D ns)" using mem by (simp add: la)
    have c2: "set (localAvailability tz ?s' ?D ns)
        = set (localAvailability tz s ?D ns) - {slotTime ns}"
      by (auto simp: la la')
    have c3: "set (getAvailability ?s' d day) \<subseteq> set (getAvailability s d day)"
      by (auto simp: av old)
    have c4: "slotCount ?s' ?D < slotCount s ?D" using cnt less by arith
    have c5: "distinct (localAvailability tz s ?D ns) \<longrightarrow> Suc (slotCount ?s' ?D) = slotCount s ?D"
      using cnt one by (auto simp: la)
    from c1 c2 c3 c4 c5 show "slotTime ns \<in> set (localAvailability tz s ?D ns)
      \<and> set (localAvailability tz ?s' ?D ns) = set (localAvailability tz s ?D ns) - {slotTime ns}
      \<and> set (getAvailability ?s' d day) \<subseteq> set (getAvailability s d day)
      \<and> slotCount ?s' ?D < slotCount s ?D
      \<and> (distinct (localAvailability tz s ?D ns) \<longrightarrow> Suc (slotCount ?s' ?D) = slotCount s ?D)"
      by (intro conjI)
  qed
  then show ?thesis unfolding eq .
qed

theorem reschedule_takes_new_slot_only_witness:
  "''11:00'' \<in> set (localAvailability 0 exBooked ''D1'' elevenOClock)
   \<and> ''11:00'' \<notin> set (localAvailability 0 (snd (reschedule noFault 0 0 ''D1'' elevenOClock exBooked))
         ''D1'' elevenOClock)
   \<and> slotCount (snd (reschedule noFault 0 0 ''D1'' elevenOClock exBooked)) ''D1''
       < slotCount exBooked ''D1''"
proof -
  have ok: "fst (reschedule noFault 0 0 ''D1'' elevenOClock exBooked) = RescheduledNotified"
    by (simp add: exBooked_rescheduled)
  have D: "doctorId (appointments exBooked ! 0) = ''D1''" by (simp add: ex_defs)
  have t: "slotTime elevenOClock = ''11:00''" by (simp add: ex_defs time_defs)
  show ?thesis
    using reschedule_takes_new_slot_only [OF ok, of "''D1''" 19875] unfolding D t by blast
qed

text \<open>
  C2 fails as stated: Alice moves from 10:00 to 11:00; afterwards 10:00 is not offered and
  the doctor offers no slot at all, against one before.
\<close>

theorem reschedule_releases_old_slot_counterexample:
  "fst (reschedule noFault 0 0 ''D1'' elevenOClock exBooked) = RescheduledNotified
   \<and> appointmentTime (appointments exBooked ! 0) = 1717236000000
   \<and> appointmentTime (appointments (snd (reschedule noFault 0 0 ''D1'' elevenOClock exBooked)) ! 0)
       = 1717239600000
   \<and> isoTime 1717236000000 = ''10:00''
   \<and> ''10:00'' \<notin> set (getAvailability (snd (reschedule noFault 0 0 ''D1'' elevenOClock exBooked))
         ''D1'' (isoDate 1717236000000))
   \<and> slotCount exBooked ''D1'' = 1
   \<and> slotCount (snd (reschedule noFault 0 0 ''D1'' elevenOClock exBooked)) ''D1'' = 0"
  unfolding exBooked_rescheduled
  by (simp add: avail_defs ex_defs time_defs)

section \<open>Claims on the conflict guard\<close>

lemma guard_rejects:
  assumes "\<not> fails FindOverlap" "slotInstant tz ns = Some ts"
    and "a \<in> set (appointments s)" "doctorId a = dId" "appointmentTime a = ts"
  shows "reschedule fails tz appointmentId dId ns s = (SlotAlreadyBooked, s)"
proof -
  have "list_ex (\<lambda>a. doctorId a = dId \<and> appointmentTime a = ts) (appointments s)"
    using assms(3-5) by (auto simp: list_ex_iff)
  then have "preventDoubleBooking fails tz dId ns s = Some SlotAlreadyBooked"
    using assms(1,2) by (simp add: preventDoubleBooking_def)
  then show ?thesis by (simp add: reschedule_def)
qed

lemma exMissed_own_time:
  "slotInstant 0 \<lparr>slotDate = 19875, slotHour = 10, slotMinute = 0\<rparr> = Some 1717236000000"
  by (simp add: slotInstant_def)

lemma exReopened_reached:
  "snd (update_slots noFault ''D1'' 1717200000000 [''11:00'']
     (snd (book_appointment noFault ''Bob'' ''b@x.com'' ''D1'' 1717239600000 exBooked)))
   = exReopened"
  by (simp add: op_defs ex_defs time_defs)

text \<open>
  C10. When some stored appointment carries the doctorId of the request body and lies at
  the new timestamp, whatever its status and whether or not it is the appointment to be
  rescheduled, the middleware answers "Slot already booked" and the handler is not run:
  the store is as before, for any appointment id and whatever would have failed in the
  handler. (The lookup of the middleware itself is taken to succeed.)
\<close>

theorem reschedule_rejects_taken_timestamp:
  assumes "\<not> fails FindOverlap" and "slotInstant tz ns = Some ts"
    and "a \<in> set (appointments s)" and "doctorId a = dId" and "appointmentTime a = ts"
  shows "reschedule fails tz appointmentId dId ns s = (SlotAlreadyBooked, s)
    \<and> preventDoubleBooking fails tz dId ns s = Some SlotAlreadyBooked"
proof -
  have "reschedule fails tz appointmentId dId ns s = (SlotAlreadyBooked, s)"
    using assms by (rule guard_rejects)
  moreover have "preventDoubleBooking fails tz dId ns s = Some SlotAlreadyBooked"
    using assms by (auto simp: preventDoubleBooking_def list_ex_iff)
  ultimately show ?thesis by simp
qed

theorem reschedule_rejects_taken_timestamp_witness:
  "status (appointments exMissed ! 0) = Missed
   \<and> reschedule noFault 0 0 ''D1'' \<lparr>slotDate = 19875, slotHour = 10, slotMinute = 0\<rparr> exMissed
       = (SlotAlreadyBooked, exMissed)
   \<and> reschedule (onlyFails FindAppointment) 0 7 ''D1'' \<lparr>slotDate = 19875, slotHour = 10, slotMinute = 0\<rparr> exMissed
       = (SlotAlreadyBooked, exMissed)"
proof -
  have nf: "\<not> noFault FindOverlap" "\<not> onlyFails FindAppointment FindOverlap"
    by (simp_all add: noFault_def onlyFails_def)
  have a: "exAppt 1717236000000 Missed \<in> set (appointments exMissed)"
    "doctorId (exAppt 1717236000000 Missed) = ''D1''"
    "appointmentTime (exAppt 1717236000000 Missed) = 1717236000000"
    by (simp_all add: ex_defs)
  have m: "status (appointments exMissed ! 0) = Missed" by (simp add: ex_defs)
  show ?thesis
    using reschedule_rejects_taken_timestamp [where fails = noFault and appointmentId = 0,
        OF nf(1) exMissed_own_time a]
      reschedule_rejects_taken_timestamp [where fails = "onlyFails FindAppointment"
        and appointmentId = 7, OF nf(2) exMissed_own_time a]
      m
    by simp
qed

text \<open>
  C8, as the code has it. The guard looks for the doctorId of the request body, not for
  the doctor of the appointment. When the request names the doctor of the appointment and
  another appointment of that doctor lies at the new timestamp, Reschedule answers
  "Slot already booked" and the store is as before.
\<close>

theorem reschedule_rejects_other_appointment:
  assumes "\<not> fails FindOverlap" and "slotInstant tz ns = Some ts"
    and "appointmentId < length (appointments s)" and "j < length (appointments s)"
    and "j \<noteq> appointmentId"
    and "doctorId (appointments s ! j) = doctorId (appointments s ! appointmentId)"
    and "appointmentTime (appointments s ! j) = ts"
    and "rId = doctorId (appointments s ! appointmentId)"
  shows "reschedule fails tz appointmentId rId ns s = (SlotAlreadyBooked, s)"
proof -
  have m: "appointments s ! j \<in> set (appointments s)" using assms(4) by simp
  have d: "doctorId (appointments s ! j) = rId" using assms(6,8) by simp
  show ?thesis using assms(1,2) m d assms(7) by (rule guard_rejects)
qed

theorem reschedule_rejects_other_appointment_witness:
  "reschedule noFault 0 0 ''D1'' elevenOClock exReopened = (SlotAlreadyBooked, exReopened)"
proof -
  have nf: "\<not> noFault FindOverlap" by (simp add: noFault_def)
  have ts: "slotInstant 0 elevenOClock = Some 1717239600000"
    by (simp add: slotInstant_def elevenOClock_def)
  have l: "0 < length (appointments exReopened)" "1 < length (appointments exReopened)"
    "(1::nat) \<noteq> 0"
    by (simp_all add: ex_defs)
  have d: "doctorId (appointments exReopened ! 1) = doctorId (appointments exReopened ! 0)"
    "appointmentTime (appointments exReopened ! 1) = 1717239600000"
    "''D1'' = doctorId (appointments exReopened ! 0)"
    by (simp_all add: ex_defs)
  show ?thesis
    using reschedule_rejects_other_appointment [where fails = noFault, OF nf ts l d] .
qed

text \<open>
  C8 fails as stated: Bob holds 11:00 with doctor D1, 11:00 is offered again, and a request
  to move Alice's appointment with D1 to 11:00 that names doctor D2 in its body passes the
  guard and succeeds.
\<close>

theorem reschedule_guard_other_doctor_counterexample:
  "doctorId (appointments exReopened ! 1) = doctorId (appointments exReopened ! 0)
   \<and> slotInstant 0 elevenOClock = Some (appointmentTime (appointments exReopened ! 1))
   \<and> fst (reschedule noFault 0 0 ''D2'' elevenOClock exReopened) = RescheduledNotified
   \<and> appointments (snd (reschedule noFault 0 0 ''D2'' elevenOClock exReopened)) =
       [exAppt 1717239600000 Rescheduled,
        (exAppt 1717239600000 Scheduled)\<lparr>patientName := ''Bob'', patientEmail := ''b@x.com''\<rparr>]"
  by (simp add: op_defs ex_defs time_defs)

section \<open>Claims on the Missed status\<close>

lemma book_keeps_appointment:
  "i < length (appointments s) \<Longrightarrow>
   appointments (snd (book_appointment fails pName pEmail dId t s)) ! i = appointments s ! i"
  by (auto simp: book_appointment_def Let_def nth_append split: option.splits if_splits)

lemma update_slots_appointments:
  "appointments (snd (update_slots fails dId dt newSlots s)) = appointments s"
  by (auto simp: update_slots_def Let_def split: option.splits if_splits)

lemma reschedule_keeps_others:
  "i \<noteq> j \<Longrightarrow>
   appointments (snd (reschedule fails tz j rId ns s)) ! i = appointments s ! i"
  by (auto simp: reschedule_def reschedule_handler_def Let_def split: option.splits if_splits)

lemma reschedule_success_appointment:
  assumes "fst (reschedule fails tz i rId ns s) = RescheduledNotified"
  shows "status (appointments (snd (reschedule fails tz i rId ns s)) ! i) = Rescheduled
    \<and> slotInstant tz ns
        = Some (appointmentTime (appointments (snd (reschedule fails tz i rId ns s)) ! i))"
proof -
  have eq: "reschedule fails tz i rId ns s = reschedule_handler fails tz i ns s"
    using assms by (rule reschedule_success_handler)
  with assms have "snd (reschedule_handler fails tz i ns s) \<noteq> s
      \<or> fst (reschedule_handler fails tz i ns s) = RescheduledNotified"
    by simp
  then have "status (appointments (snd (reschedule_handler fails tz i ns s)) ! i) = Rescheduled
    \<and> slotInstant tz ns
        = Some (appointmentTime (appointments (snd (reschedule_handler fails tz i ns s)) ! i))"
  proof (rule reschedule_handler_written)
    fix ts
    assume "i < length (appointments s)" "slotInstant tz ns = Some ts"
      "appointments (snd (reschedule_handler fails tz i ns s)) =
         (appointments s)[i := (appointments s ! i)\<lparr>status := Rescheduled, appointmentTime := ts\<rparr>]"
    then show ?thesis by simp
  qed
  then show ?thesis unfolding eq .
qed

lemma exMissed_reached: "checkMissedAppointments 1717237000000 exBooked = exMissed"
  by (simp add: op_defs ex_defs)

lemma exMissed_rescheduled:
  "reschedule noFault 0 0 ''D1'' elevenOClock exMissed =
     (RescheduledNotified,
      \<lparr>appointments = [exAppt 1717239600000 Rescheduled],
       doctors = [''D1'' \<mapsto> exDoctor\<lparr>schedule :=
         [\<lparr>date = 1717200000000, availableSlots = []\<rparr>]\<rparr>]\<rparr>)"
  by (simp add: op_defs ex_defs time_defs)

text \<open>
  C3, as the code has it. A Missed appointment is left as it is by the sweep, by Book, by
  the update of the slots and by the Reschedule of any other appointment. Reschedule does
  not look at the status: a successful Reschedule of the Missed appointment sets it to
  Rescheduled at the new timestamp.
\<close>

theorem missed_left_only_by_reschedule:
  assumes "i < length (appointments s)" and "status (appointments s ! i) = Missed"
  shows "appointments (checkMissedAppointments now s) ! i = appointments s ! i
    \<and> appointments (snd (book_appointment fails pName pEmail dId t s)) ! i = appointments s ! i
    \<and> appointments (snd (update_slots fails dId dt newSlots s)) ! i = appointments s ! i
    \<and> (j \<noteq> i \<longrightarrow> appointments (snd (reschedule fails tz j rId ns s)) ! i = appointments s ! i)
    \<and> (fst (reschedule fails tz i rId ns s) = RescheduledNotified \<longrightarrow>
          status (appointments (snd (reschedule fails tz i rId ns s)) ! i) = Rescheduled
          \<and> slotInstant tz ns
              = Some (appointmentTime (appointments (snd (reschedule fails tz i rId ns s)) ! i)))"
proof (intro conjI impI)
  show "appointments (checkMissedAppointments now s) ! i = appointments s ! i"
    using assms by (simp add: sweep_nth isStale_def)
  show "appointments (snd (book_appointment fails pName pEmail dId t s)) ! i = appointments s ! i"
    using assms(1) by (rule book_keeps_appointment)
  show "appointments (snd (update_slots fails dId dt newSlots s)) ! i = appointments s ! i"
    by (simp add: update_slots_appointments)
  show "appointments (snd (reschedule fails tz j rId ns s)) ! i = appointments s ! i"
    if "j \<noteq> i" using that by (simp add: reschedule_keeps_others)
  assume ok: "fst (reschedule fails tz i rId ns s) = RescheduledNotified"
  show "status (appointments (snd (reschedule fails tz i rId ns s)) ! i) = Rescheduled"
    using reschedule_success_appointment [OF ok] by simp
  show "slotInstant tz ns
      = Some (appointmentTime (appointments (snd (reschedule fails tz i rId ns s)) ! i))"
    using reschedule_success_appointment [OF ok] by simp
qed

theorem missed_left_only_by_reschedule_witness:
  "appointments (checkMissedAppointments 1717250000000 exMissed) ! 0 = appointments exMissed ! 0
   \<and> appointments (snd (book_appointment noFault ''Bob'' ''b@x.com'' ''D1'' 1717239600000 exMissed)) ! 0
       = appointments exMissed ! 0
   \<and> appointments (snd (reschedule noFault 0 1 ''D1'' elevenOClock exMissed)) ! 0
       = appointments exMissed ! 0
   \<and> status (appointments (snd (reschedule noFault 0 0 ''D1'' elevenOClock exMissed)) ! 0)
       = Rescheduled"
proof -
  have l: "0 < length (appointments exMissed)" by (simp add: ex_defs)
  have m: "status (appointments exMissed ! 0) = Missed" by (simp add: ex_defs)
  have ok: "fst (reschedule noFault 0 0 ''D1'' elevenOClock exMissed) = RescheduledNotified"
    by (simp add: exMissed_rescheduled)
  have ne: "(1::nat) \<noteq> 0" by simp
  show ?thesis
    using missed_left_only_by_reschedule [OF l m, where now = 1717250000000 and fails = noFault
        and pName = "''Bob''" and pEmail = "''b@x.com''" and dId = "''D1''" and t = 1717239600000
        and j = 1 and tz = 0 and rId = "''D1''" and ns = elevenOClock] ok ne
    by blast
qed

text \<open>
  C3 fails as stated: Alice's appointment at 10:00 is Missed; the request to move it to
  11:00 succeeds and the appointment is Rescheduled at 11:00.
\<close>

theorem missed_is_terminal_counterexample:
  "status (appointments exMissed ! 0) = Missed
   \<and> appointmentTime (appointments exMissed ! 0) = 1717236000000
   \<and> fst (reschedule noFault 0 0 ''D1'' elevenOClock exMissed) = RescheduledNotified
   \<and> status (appointments (snd (reschedule noFault 0 0 ''D1'' elevenOClock exMissed)) ! 0)
       = Rescheduled
   \<and> appointmentTime (appointments (snd (reschedule noFault 0 0 ''D1'' elevenOClock exMissed)) ! 0)
       = 1717239600000"
  unfolding exMissed_rescheduled by (simp add: ex_defs)

end
